theory Spec2Isabelle
  imports Main
begin

section \<open>Strings\<close>

text \<open>
  Python strings are modelled as \<^typ>\<open>string\<close>, read as UTF-8 encoded text.
  \<open>whitespace\<close> lists the encodings of the 29 code points for which
  \<^verbatim>\<open>str.isspace\<close> holds: U+0009 to U+000D, U+001C to U+0020, U+0085, U+00A0, U+1680,
  U+2000 to U+200A, U+2028, U+2029, U+202F, U+205F and U+3000.
\<close>

definition whitespace :: "string list" where
  "whitespace =
     [[CHR 0x09], [CHR 0x0A], [CHR 0x0B], [CHR 0x0C], [CHR 0x0D], [CHR 0x1C],
      [CHR 0x1D], [CHR 0x1E], [CHR 0x1F], [CHR 0x20], [CHR 0xC2, CHR 0x85],
      [CHR 0xC2, CHR 0xA0], [CHR 0xE1, CHR 0x9A, CHR 0x80],
      [CHR 0xE2, CHR 0x80, CHR 0x80], [CHR 0xE2, CHR 0x80, CHR 0x81],
      [CHR 0xE2, CHR 0x80, CHR 0x82], [CHR 0xE2, CHR 0x80, CHR 0x83],
      [CHR 0xE2, CHR 0x80, CHR 0x84], [CHR 0xE2, CHR 0x80, CHR 0x85],
      [CHR 0xE2, CHR 0x80, CHR 0x86], [CHR 0xE2, CHR 0x80, CHR 0x87],
      [CHR 0xE2, CHR 0x80, CHR 0x88], [CHR 0xE2, CHR 0x80, CHR 0x89],
      [CHR 0xE2, CHR 0x80, CHR 0x8A], [CHR 0xE2, CHR 0x80, CHR 0xA8],
      [CHR 0xE2, CHR 0x80, CHR 0xA9], [CHR 0xE2, CHR 0x80, CHR 0xAF],
      [CHR 0xE2, CHR 0x81, CHR 0x9F], [CHR 0xE3, CHR 0x80, CHR 0x80]]"

text \<open>
  Whether a string starts with another, the first of the given encodings that starts
  the string, and the string without all such encodings at its start. In well-formed UTF-8 an encoding that starts (or ends) the
  byte string is a character of the text.
\<close>

fun starts_with :: "string \<Rightarrow> string \<Rightarrow> bool" where
  "starts_with s [] = True"
| "starts_with [] (x # xs) = False"
| "starts_with (y # ys) (x # xs) = (y = x \<and> starts_with ys xs)"

definition match_prefix :: "string list \<Rightarrow> string \<Rightarrow> string option" where
  "match_prefix W s = find (\<lambda>w. w \<noteq> [] \<and> starts_with s w) W"

function strip_prefixes :: "string list \<Rightarrow> string \<Rightarrow> string" where
  "strip_prefixes W s =
     (case match_prefix W s of
        None \<Rightarrow> s
      | Some w \<Rightarrow> strip_prefixes W (drop (length w) s))"
  by pat_completeness auto
termination
proof (relation "measure (\<lambda>(W, s). length s)")
  show "wf (measure (\<lambda>(W, s). length s))" by simp
next
  fix W :: "string list" and s w :: string
  have l: "\<And>s w. starts_with s w \<Longrightarrow> length w \<le> length s"
  proof -
    fix s w :: string
    show "starts_with s w \<Longrightarrow> length w \<le> length s"
      by (induction s w rule: starts_with.induct) simp_all
  qed
  assume "match_prefix W s = Some w"
  then have "w \<noteq> []" and "starts_with s w"
    by (auto simp: match_prefix_def find_Some_iff)
  with l have "w \<noteq> []" and "length w \<le> length s" by simp_all
  then have "length (drop (length w) s) < length s"
    by (cases w) simp_all
  then show "((W, drop (length w) s), (W, s)) \<in> measure (\<lambda>(W, s). length s)"
    by simp
qed

declare strip_prefixes.simps [simp del]

text \<open>
  \<^verbatim>\<open>s.lstrip()\<close>, \<^verbatim>\<open>s.rstrip()\<close> and \<^verbatim>\<open>s.strip()\<close>: remove leading, trailing, and
  leading and trailing whitespace.
\<close>

definition lstrip :: "string \<Rightarrow> string" where
  "lstrip s = strip_prefixes whitespace s"

definition rstrip :: "string \<Rightarrow> string" where
  "rstrip s = rev (strip_prefixes (map rev whitespace) (rev s))"

definition strip :: "string \<Rightarrow> string" where
  "strip s = rstrip (lstrip s)"

text \<open>A blank string is empty or consists of whitespace only.\<close>

definition blank :: "string \<Rightarrow> bool" where
  "blank s = (lstrip s = [])"

text \<open>
  \<^verbatim>\<open>s.lower()\<close> on the ASCII letters; every other byte is kept. The program only
  compares the result with \<^verbatim>\<open>".py"\<close>, and no character outside ASCII has a lower case
  that holds \<^verbatim>\<open>p\<close>, \<^verbatim>\<open>y\<close> or a dot, so the comparison comes out as in Python.
\<close>

definition lower_char :: "char \<Rightarrow> char" where
  "lower_char ch =
     (case map_of (zip ''ABCDEFGHIJKLMNOPQRSTUVWXYZ'' ''abcdefghijklmnopqrstuvwxyz'') ch of
        Some l \<Rightarrow> l
      | None \<Rightarrow> ch)"

definition lower :: "string \<Rightarrow> string" where
  "lower s = map lower_char s"

text \<open>
  \<^verbatim>\<open>s.split(sep)\<close> for a separator of one character. The result is never empty:
  \<^verbatim>\<open>"".split(",")\<close> is \<^verbatim>\<open>[""]\<close>.
\<close>

fun str_split :: "char \<Rightarrow> string \<Rightarrow> string list" where
  "str_split sep [] = [[]]"
| "str_split sep (ch # cs) =
     (if ch = sep then [] # str_split sep cs
      else (case str_split sep cs of
              [] \<Rightarrow> [[ch]]
            | x # xs \<Rightarrow> (ch # x) # xs))"

text \<open>Truthiness of an \<^verbatim>\<open>Optional[str]\<close>: \<^verbatim>\<open>None\<close> and \<^verbatim>\<open>""\<close> are false.\<close>

fun truthy :: "string option \<Rightarrow> bool" where
  "truthy None = False"
| "truthy (Some s) = (s \<noteq> [])"

text \<open>
  The comprehension
  \<^verbatim>\<open>[item.strip() for item in (xs or []) if item and item.strip()]\<close>
  of \<^verbatim>\<open>Crafter.__init__\<close>.
\<close>

definition clean_list :: "string list option \<Rightarrow> string list" where
  "clean_list xs =
     map strip (filter (\<lambda>item. item \<noteq> [] \<and> strip item \<noteq> [])
                  (case xs of None \<Rightarrow> [] | Some ys \<Rightarrow> ys))"

text \<open>The list operations \<^verbatim>\<open>cmd.extend(xs)\<close> and \<^verbatim>\<open>cmd.append(x)\<close>.\<close>

definition list_extend :: "'a list \<Rightarrow> 'a list \<Rightarrow> 'a list" where
  "list_extend cmd xs = cmd @ xs"

definition list_append :: "'a list \<Rightarrow> 'a \<Rightarrow> 'a list" where
  "list_append cmd x = cmd @ [x]"

section \<open>Exceptions and the environment\<close>

text \<open>
  An exception is its class, the text \<^verbatim>\<open>str(e)\<close> and its \<^verbatim>\<open>__cause__\<close>.
  \<open>OtherException\<close> stands for any other class derived from \<^verbatim>\<open>Exception\<close>, and
  \<open>SystemExit\<close> for the classes derived from \<^verbatim>\<open>BaseException\<close> only, which a handler
  \<^verbatim>\<open>except Exception\<close> does not catch; the packaging tool leaves with it when it fails.
\<close>

datatype exc_class =
  CrafterError | AttributeError | UnboundLocalError | OSError | ValueError
  | OtherException | SystemExit

fun is_Exception :: "exc_class \<Rightarrow> bool" where
  "is_Exception SystemExit = False"
| "is_Exception c = True"

datatype exc = Exc (exc_class: exc_class) (exc_str: string) (exc_cause: "exc option")

text \<open>
  Everything the program obtains from outside its own source is a field of the
  environment: the flag set by the guarded import of PyInstaller, the pure path
  operations of \<^verbatim>\<open>pathlib\<close> on a type \<open>'p\<close> of paths, the file-system queries and updates
  on a type \<open>'w\<close> of worlds, \<^verbatim>\<open>tempfile.mkdtemp\<close> and \<^verbatim>\<open>PyInstaller.__main__.run\<close>.
  An operation that may raise returns \<open>Inl e\<close> or \<open>Some e\<close> for the exception it raised:
  \<^verbatim>\<open>Path.is_file\<close> and \<^verbatim>\<open>Path.exists\<close> raise the \<^verbatim>\<open>OSError\<close> that they do not take for
  a missing file (an over-long name), \<^verbatim>\<open>Path.resolve\<close> raises \<^verbatim>\<open>ValueError\<close> for an
  embedded null byte. \<^verbatim>\<open>shutil.rmtree\<close> is only called with \<^verbatim>\<open>ignore_errors=True\<close> and
  never raises; \<^verbatim>\<open>os.access\<close>, \<^verbatim>\<open>Path.home\<close> and \<^verbatim>\<open>mkdtemp\<close> are taken to succeed.
\<close>

record ('p, 'w) os_env =
  PYINSTALLER_AVAILABLE :: bool
  Path :: "string \<Rightarrow> 'p"
  path_str :: "'p \<Rightarrow> string"
  path_parent :: "'p \<Rightarrow> 'p"
  path_stem :: "'p \<Rightarrow> string"
  path_suffix :: "'p \<Rightarrow> string"
  path_with_suffix :: "'p \<Rightarrow> string \<Rightarrow> 'p"
  path_join :: "'p \<Rightarrow> string \<Rightarrow> 'p"
  path_home :: "'p"
  path_is_file :: "'p \<Rightarrow> 'w \<Rightarrow> exc + bool"
  path_exists :: "'p \<Rightarrow> 'w \<Rightarrow> exc + bool"
  path_resolve :: "'p \<Rightarrow> 'w \<Rightarrow> exc + 'p"
  os_access_W_OK :: "'p \<Rightarrow> 'w \<Rightarrow> bool"
  path_mkdir :: "'p \<Rightarrow> 'w \<Rightarrow> exc option \<times> 'w"
  path_unlink :: "'p \<Rightarrow> 'w \<Rightarrow> exc option \<times> 'w"
  shutil_rmtree :: "'p \<Rightarrow> 'w \<Rightarrow> 'w"
  tempfile_mkdtemp :: "string \<Rightarrow> 'w \<Rightarrow> string \<times> 'w"
  PyInstaller_run :: "string list \<Rightarrow> 'w \<Rightarrow> exc option \<times> 'w"

section \<open>The class Crafter\<close>

text \<open>
  The arguments of \<^verbatim>\<open>Crafter.__init__\<close>. The script is the one argument whose dynamic
  type the constructor tests: \<open>NonStr b\<close> is a value that is not a \<^verbatim>\<open>str\<close> and whose
  truth value is \<open>b\<close>. The progress callback is taken not to raise.
\<close>

datatype script_arg = Str string | NonStr bool

record 'w crafter_args =
  arg_script :: script_arg
  arg_output :: "string option"
  arg_icon :: "string option"
  arg_name :: "string option"
  arg_no_console :: bool
  arg_one_file :: bool
  arg_require_admin :: bool
  arg_clean_build :: bool
  arg_force_replace :: bool
  arg_optimize :: bool
  arg_hidden_imports :: "string list option"
  arg_excluded_modules :: "string list option"
  arg_data_files :: "string list option"
  arg_binary_files :: "string list option"
  arg_extra_paths :: "string list option"
  arg_progress_callback :: "(string \<Rightarrow> 'w \<Rightarrow> 'w) option"

text \<open>
  The attributes that \<^verbatim>\<open>__init__\<close> assigns (the logger apart); the attribute
  \<^verbatim>\<open>output\<close> is the field \<open>output_dir\<close>.
\<close>

record ('p, 'w) crafter =
  script :: 'p
  output_dir :: 'p
  icon :: "'p option"
  name :: string
  no_console :: bool
  one_file :: bool
  require_admin :: bool
  clean_build :: bool
  force_replace :: bool
  optimize :: bool
  progress_callback :: "(string \<Rightarrow> 'w \<Rightarrow> 'w) option"
  hidden_imports :: "string list"
  excluded_modules :: "string list"
  data_files :: "string list"
  binary_files :: "string list"
  extra_paths :: "string list"

text \<open>
  The two conditional expressions of \<^verbatim>\<open>__init__\<close>:
  \<^verbatim>\<open>Path(output).resolve() if output else self.script.parent\<close> and
  \<^verbatim>\<open>Path(icon).resolve() if icon else None\<close>.
\<close>

definition init_output ::
  "('p, 'w) os_env \<Rightarrow> string option \<Rightarrow> 'p \<Rightarrow> 'w \<Rightarrow> exc + 'p" where
  "init_output env out self_script w =
     (case out of
        None \<Rightarrow> Inr (path_parent env self_script)
      | Some d \<Rightarrow>
          if d \<noteq> [] then path_resolve env (Path env d) w
          else Inr (path_parent env self_script))"

definition init_icon ::
  "('p, 'w) os_env \<Rightarrow> string option \<Rightarrow> 'w \<Rightarrow> exc + 'p option" where
  "init_icon env ic w =
     (case ic of
        None \<Rightarrow> Inr None
      | Some i \<Rightarrow>
          if i \<noteq> []
          then (case path_resolve env (Path env i) w of
                  Inl e \<Rightarrow> Inl e
                | Inr p \<Rightarrow> Inr (Some p))
          else Inr None)"

text \<open>
  \<^verbatim>\<open>Crafter.__init__\<close>. No statement of it stands in a \<^verbatim>\<open>try\<close> block: what
  \<^verbatim>\<open>is_file\<close> or \<^verbatim>\<open>resolve\<close> raises leaves the constructor unchanged.
\<close>

definition Crafter_init ::
  "('p, 'w) os_env \<Rightarrow> 'w crafter_args \<Rightarrow> 'w \<Rightarrow> exc + ('p, 'w) crafter" where
  "Crafter_init env args w =
     (if \<not> PYINSTALLER_AVAILABLE env
      then Inl (Exc CrafterError
             ''PyInstaller is not installed. Install it using: pip install pyinstaller'' None)
      else
        (case arg_script args of
           NonStr b \<Rightarrow> Inl (Exc CrafterError ''Script path must be a non-empty string'' None)
         | Str s \<Rightarrow>
             if s = []
             then Inl (Exc CrafterError ''Script path must be a non-empty string'' None)
             else
               (let script_path = Path env s in
                case path_is_file env script_path w of
                  Inl e \<Rightarrow> Inl e
                | Inr is_file \<Rightarrow>
                    if \<not> is_file \<or> lower (path_suffix env script_path) \<noteq> ''.py''
                    then Inl (Exc CrafterError
                           ''The provided script path must point to a valid .py file.'' None)
                    else
                      (case path_resolve env script_path w of
                         Inl e \<Rightarrow> Inl e
                       | Inr self_script \<Rightarrow>
                           (case init_output env (arg_output args) self_script w of
                              Inl e \<Rightarrow> Inl e
                            | Inr self_output \<Rightarrow>
                                (case init_icon env (arg_icon args) w of
                                   Inl e \<Rightarrow> Inl e
                                 | Inr self_icon \<Rightarrow>
                                     Inr \<lparr> script = self_script,
                                           output_dir = self_output,
                                           icon = self_icon,
                                           name = (case arg_name args of
                                                     None \<Rightarrow> path_stem env self_script
                                                   | Some n \<Rightarrow>
                                                       if n \<noteq> [] then n
                                                       else path_stem env self_script),
                                           no_console = arg_no_console args,
                                           one_file = arg_one_file args,
                                           require_admin = arg_require_admin args,
                                           clean_build = arg_clean_build args,
                                           force_replace = arg_force_replace args,
                                           optimize = arg_optimize args,
                                           progress_callback = arg_progress_callback args,
                                           hidden_imports = clean_list (arg_hidden_imports args),
                                           excluded_modules =
                                             clean_list (arg_excluded_modules args),
                                           data_files = clean_list (arg_data_files args),
                                           binary_files = clean_list (arg_binary_files args),
                                           extra_paths = clean_list (arg_extra_paths args)
                                         \<rparr>))))))"

text \<open>
  \<^verbatim>\<open>Crafter._build_command\<close>. The command grows by \<^verbatim>\<open>extend\<close> and \<^verbatim>\<open>append\<close> as in the
  source; each \<^verbatim>\<open>for\<close> loop is a fold over its list. A \<^verbatim>\<open>Path\<close> object is always true,
  so \<^verbatim>\<open>if self.icon\<close> tests the icon for \<^verbatim>\<open>None\<close>. The two temporary directories
  change the world.
\<close>

definition build_command ::
  "('p, 'w) os_env \<Rightarrow> ('p, 'w) crafter \<Rightarrow> 'w \<Rightarrow> string list \<times> 'w" where
  "build_command env self w =
     (let (wd, w1) = tempfile_mkdtemp env ''pyinstaller_work_'' w;
          work_dir = Path env wd;
          (sd, w2) = tempfile_mkdtemp env ''pyinstaller_spec_'' w1;
          spec_dir = Path env sd;
          cmd0 = [path_str env (script self),
                  ''--name'', name self,
                  ''--distpath'', path_str env (output_dir self),
                  ''--workpath'', path_str env work_dir,
                  ''--specpath'', path_str env spec_dir];
          cmd1 = (case icon self of
                    Some ic \<Rightarrow> list_extend cmd0 [''--icon'', path_str env ic]
                  | None \<Rightarrow> cmd0);
          cmd2 = (if one_file self then list_append cmd1 ''--onefile'' else cmd1);
          cmd3 = (if no_console self then list_append cmd2 ''--noconsole'' else cmd2);
          cmd4 = (if require_admin self then list_append cmd3 ''--uac-admin'' else cmd3);
          cmd5 = (if optimize self then list_extend cmd4 [''--optimize'', ''2''] else cmd4);
          cmd6 = fold (\<lambda>item cmd. list_extend cmd [''--hidden-import'', item])
                   (hidden_imports self) cmd5;
          cmd7 = fold (\<lambda>item cmd. list_extend cmd [''--exclude-module'', item])
                   (excluded_modules self) cmd6;
          cmd8 = fold (\<lambda>data cmd. list_extend cmd [''--add-data'', data])
                   (data_files self) cmd7;
          cmd9 = fold (\<lambda>binary cmd. list_extend cmd [''--add-binary'', binary])
                   (binary_files self) cmd8;
          cmd10 = fold (\<lambda>path cmd. list_extend cmd [''--paths'', path])
                   (extra_paths self) cmd9
      in (cmd10, w2))"

text \<open>\<^verbatim>\<open>Crafter._log_progress\<close>; the logger itself has no effect on the model.\<close>

definition log_progress :: "('p, 'w) crafter \<Rightarrow> string \<Rightarrow> 'w \<Rightarrow> 'w" where
  "log_progress self message w =
     (case progress_callback self of
        Some callback \<Rightarrow> callback message w
      | None \<Rightarrow> w)"

text \<open>
  \<^verbatim>\<open>Crafter._validate_inputs\<close> only reads the world; it returns the exception that
  leaves it, if any: one of its own \<^verbatim>\<open>CrafterError\<close>s, or what \<^verbatim>\<open>exists\<close> raised. The
  two loops over the data files and the binary files differ in the word that starts the
  message.
\<close>

definition invalid_chars :: string where
  "invalid_chars = [CHR ''<'', CHR ''>'', CHR '':'', CHR 0x22, CHR ''/'', CHR 0x5C,
                    CHR ''|'', CHR ''?'', CHR ''*'']"

fun validate_files ::
  "('p, 'w) os_env \<Rightarrow> 'w \<Rightarrow> string \<Rightarrow> string list \<Rightarrow> exc option" where
  "validate_files env w kind [] = None"
| "validate_files env w kind (file # files) =
     (if CHR '';'' \<in> set file
      then
        (let src_path = (case str_split CHR '';'' file of x # xs \<Rightarrow> x | [] \<Rightarrow> [])
         in case path_exists env (Path env src_path) w of
              Inl e \<Rightarrow> Some e
            | Inr found \<Rightarrow>
                if \<not> found
                then Some (Exc CrafterError (kind @ '' file not found: '' @ src_path) None)
                else validate_files env w kind files)
      else validate_files env w kind files)"

definition validate_icon ::
  "('p, 'w) os_env \<Rightarrow> ('p, 'w) crafter \<Rightarrow> 'w \<Rightarrow> exc option" where
  "validate_icon env self w =
     (case icon self of
        None \<Rightarrow> None
      | Some ic \<Rightarrow>
          (case path_exists env ic w of
             Inl e \<Rightarrow> Some e
           | Inr found \<Rightarrow>
               if \<not> found
               then Some (Exc CrafterError (''Icon file not found: '' @ path_str env ic) None)
               else None))"

definition validate_inputs ::
  "('p, 'w) os_env \<Rightarrow> ('p, 'w) crafter \<Rightarrow> 'w \<Rightarrow> exc option" where
  "validate_inputs env self w =
     (case path_exists env (script self) w of
        Inl e \<Rightarrow> Some e
      | Inr found \<Rightarrow>
          if \<not> found
          then Some (Exc CrafterError
                 (''Script file not found: '' @ path_str env (script self)) None)
          else
            (case validate_icon env self w of
               Some e \<Rightarrow> Some e
             | None \<Rightarrow>
                 if \<not> os_access_W_OK env (path_parent env (output_dir self)) w
                 then Some (Exc CrafterError
                        (''No write permission for output directory: ''
                           @ path_str env (output_dir self)) None)
                 else if list_ex (\<lambda>ch. ch \<in> set (name self)) invalid_chars
                 then Some (Exc CrafterError
                        (''Executable name contains invalid characters: '' @ invalid_chars)
                        None)
                 else
                   (case validate_files env w ''Data'' (data_files self) of
                      Some e \<Rightarrow> Some e
                    | None \<Rightarrow> validate_files env w ''Binary'' (binary_files self))))"

text \<open>
  \<^verbatim>\<open>Crafter._clean_temp_files\<close>. \<open>clean_try\<close> is the body of its \<^verbatim>\<open>try\<close> block, with the
  loop over the two folder names as \<open>clean_folders\<close>. The handler \<^verbatim>\<open>except Exception\<close>
  reports what it catches as a warning, so only an exception outside \<^verbatim>\<open>Exception\<close>
  leaves the method.
\<close>

fun clean_folders ::
  "('p, 'w) os_env \<Rightarrow> ('p, 'w) crafter \<Rightarrow> string list \<Rightarrow> 'w \<Rightarrow> exc option \<times> 'w" where
  "clean_folders env self [] w = (None, w)"
| "clean_folders env self (folder_name # rest) w =
     (let folder_path = path_join env (path_parent env (script self)) folder_name
      in case path_exists env folder_path w of
           Inl e \<Rightarrow> (Some e, w)
         | Inr found \<Rightarrow>
             clean_folders env self rest
               (if found then shutil_rmtree env folder_path w else w))"

definition clean_try ::
  "('p, 'w) os_env \<Rightarrow> ('p, 'w) crafter \<Rightarrow> 'w \<Rightarrow> exc option \<times> 'w" where
  "clean_try env self w =
     (let spec_file = path_with_suffix env (script self) ''.spec'' in
      case path_exists env spec_file w of
        Inl e \<Rightarrow> (Some e, w)
      | Inr found \<Rightarrow>
          (case (if found then path_unlink env spec_file w else (None, w)) of
             (Some e, w1) \<Rightarrow> (Some e, w1)
           | (None, w1) \<Rightarrow>
               (case clean_folders env self [''build'', ''__pycache__''] w1 of
                  (Some e, w2) \<Rightarrow> (Some e, w2)
                | (None, w2) \<Rightarrow>
                    (let cache_dir = path_join env (path_home env) ''.pyinstaller''
                     in case path_exists env cache_dir w2 of
                          Inl e \<Rightarrow> (Some e, w2)
                        | Inr cached \<Rightarrow>
                            (None, if cached then shutil_rmtree env cache_dir w2 else w2)))))"

definition clean_temp_files ::
  "('p, 'w) os_env \<Rightarrow> ('p, 'w) crafter \<Rightarrow> 'w \<Rightarrow> exc option \<times> 'w" where
  "clean_temp_files env self w =
     (case clean_try env self w of
        (None, w1) \<Rightarrow> (None, w1)
      | (Some e, w1) \<Rightarrow>
          if is_Exception (exc_class e)
          then (None, log_progress self
                        (''Warning: Could not clean some temporary files: '' @ exc_str e) w1)
          else (Some e, w1))"

text \<open>
  The body of the \<^verbatim>\<open>try\<close> block of \<^verbatim>\<open>Crafter.build\<close>: \<open>Inr\<close> the returned string,
  \<open>Inl\<close> the exception that leaves the block. The check mark and the cross of the
  progress messages are written as their UTF-8 bytes. \<open>build_clean\<close> and
  \<open>build_replace\<close> are its two conditional statements.
\<close>

definition check_mark :: string where
  "check_mark = [CHR 0xE2, CHR 0x9C, CHR 0x85]"

definition cross_mark :: string where
  "cross_mark = [CHR 0xE2, CHR 0x9D, CHR 0x8C]"

definition build_clean ::
  "('p, 'w) os_env \<Rightarrow> ('p, 'w) crafter \<Rightarrow> 'w \<Rightarrow> exc option \<times> 'w" where
  "build_clean env self w =
     (if clean_build self
      then clean_temp_files env self (log_progress self ''Cleaning temporary files...'' w)
      else (None, w))"

definition build_replace ::
  "('p, 'w) os_env \<Rightarrow> ('p, 'w) crafter \<Rightarrow> 'p \<Rightarrow> 'w \<Rightarrow> exc option \<times> 'w" where
  "build_replace env self exe_path w =
     (if force_replace self
      then (case path_exists env exe_path w of
              Inl e \<Rightarrow> (Some e, w)
            | Inr found \<Rightarrow>
                if found
                then path_unlink env exe_path
                       (log_progress self ''Removing existing executable...'' w)
                else (None, w))
      else (None, w))"

definition build_try ::
  "('p, 'w) os_env \<Rightarrow> ('p, 'w) crafter \<Rightarrow> 'w \<Rightarrow> (exc + string) \<times> 'w" where
  "build_try env self w =
     (let w1 = log_progress self ''Starting build process...'' w in
      case validate_inputs env self w1 of
        Some e \<Rightarrow> (Inl e, w1)
      | None \<Rightarrow>
          (case build_clean env self w1 of
             (Some e, w2) \<Rightarrow> (Inl e, w2)
           | (None, w2) \<Rightarrow>
               (case path_mkdir env (output_dir self) w2 of
                  (Some e, w3) \<Rightarrow> (Inl e, w3)
                | (None, w3) \<Rightarrow>
                    (let exe_path = path_join env (output_dir self) (name self @ ''.exe'') in
                     case build_replace env self exe_path w3 of
                       (Some e, w4) \<Rightarrow> (Inl e, w4)
                     | (None, w4) \<Rightarrow>
                         (let w5 = log_progress self ''Preparing PyInstaller command...'' w4;
                              (cmd, w6) = build_command env self w5;
                              w7 = log_progress self
                                     (''Building '' @ name self @ '' from ''
                                        @ path_str env (script self) @ ''...'') w6
                          in case PyInstaller_run env cmd w7 of
                               (Some e, w8) \<Rightarrow> (Inl e, w8)
                             | (None, w8) \<Rightarrow>
                                 (case path_exists env exe_path w8 of
                                    Inl e \<Rightarrow> (Inl e, w8)
                                  | Inr found \<Rightarrow>
                                      if found
                                      then (Inr (path_str env exe_path),
                                            log_progress self
                                              (check_mark
                                                 @ '' Build complete! Executable created at: ''
                                                 @ path_str env exe_path) w8)
                                      else (Inl (Exc CrafterError
                                              ''Build completed but executable file was not found.''
                                              None), w8)))))))"

text \<open>
  Reading \<^verbatim>\<open>self.debug\<close>: no statement of the class assigns an attribute of that
  name, and the class defines no \<^verbatim>\<open>__getattr__\<close>, so the read raises.
\<close>

definition self_debug :: "('p, 'w) crafter \<Rightarrow> exc + bool" where
  "self_debug self =
     Inl (Exc AttributeError
            (CHR 0x27 # ''Crafter'' @ CHR 0x27 # '' object has no attribute ''
               @ CHR 0x27 # ''debug'' @ [CHR 0x27]) None)"

text \<open>
  The handler \<^verbatim>\<open>except Exception as e\<close> of \<^verbatim>\<open>Crafter.build\<close>: it reports the message,
  evaluates the arguments of \<^verbatim>\<open>self.logger.error(error_msg, exc_info=self.debug)\<close>
  and then raises \<^verbatim>\<open>CrafterError(error_msg) from e\<close>.
\<close>

definition build_except ::
  "('p, 'w) crafter \<Rightarrow> exc \<Rightarrow> 'w \<Rightarrow> (exc + string) \<times> 'w" where
  "build_except self e w =
     (let error_msg = ''Build failed: '' @ exc_str e;
          w1 = log_progress self (cross_mark @ '' '' @ error_msg) w
      in case self_debug self of
           Inl raised \<Rightarrow> (Inl raised, w1)
         | Inr exc_info \<Rightarrow> (Inl (Exc CrafterError error_msg (Some e)), w1))"

text \<open>
  \<^verbatim>\<open>Crafter.build\<close>: the handler takes what derives from \<^verbatim>\<open>Exception\<close>; anything else
  leaves the method as it is.
\<close>

definition build ::
  "('p, 'w) os_env \<Rightarrow> ('p, 'w) crafter \<Rightarrow> 'w \<Rightarrow> (exc + string) \<times> 'w" where
  "build env self w =
     (case build_try env self w of
        (Inr exe, w1) \<Rightarrow> (Inr exe, w1)
      | (Inl e, w1) \<Rightarrow>
          if is_Exception (exc_class e) then build_except self e w1 else (Inl e, w1))"

section \<open>The window PyCrafter\<close>

text \<open>The values of the Tk variables when the build button is pressed.\<close>

record form =
  script_var :: string
  output_var :: string
  icon_var :: string
  name_var :: string
  hidden_imports_var :: string
  excluded_modules_var :: string
  data_files_var :: string
  binary_files_var :: string
  extra_paths_var :: string
  no_console_var :: bool
  one_file_var :: bool
  admin_var :: bool
  clean_build_var :: bool
  force_replace_var :: bool
  optimize_var :: bool

text \<open>\<^verbatim>\<open>v.get() if v.get() else None\<close>.\<close>

definition get_or_None :: "string \<Rightarrow> string option" where
  "get_or_None v = (if v \<noteq> [] then Some v else None)"

definition parse_comma_separated :: "string \<Rightarrow> string list option" where
  "parse_comma_separated text =
     (if strip text = [] then None
      else Some (map strip (filter (\<lambda>item. strip item \<noteq> []) (str_split CHR '','' text))))"

text \<open>
  \<^verbatim>\<open>if xs: for x in xs: cmd.extend([flag, g(x)])\<close> on an optional list: \<^verbatim>\<open>None\<close> and the
  empty list are false.
\<close>

definition extend_each ::
  "string \<Rightarrow> (string \<Rightarrow> string) \<Rightarrow> string list option \<Rightarrow> string list \<Rightarrow> string list" where
  "extend_each flag g xs cmd =
     (case xs of
        None \<Rightarrow> cmd
      | Some ys \<Rightarrow>
          if ys \<noteq> [] then fold (\<lambda>y acc. list_extend acc [flag, g y]) ys cmd else cmd)"

text \<open>
  What \<^verbatim>\<open>build_exe\<close> hands to its background thread: the command and the two local
  variables that \<^verbatim>\<open>run_build\<close> reads.
\<close>

record build_job =
  job_cmd :: "string list"
  job_output :: "string option"
  job_script :: string

text \<open>
  \<^verbatim>\<open>PyCrafter.build_exe\<close> up to the start of the thread. \<open>Inl\<close> carries the title
  and the text of the error box after which the method returns.
\<close>

definition build_exe :: "('p, 'w) os_env \<Rightarrow> form \<Rightarrow> (string \<times> string) + build_job" where
  "build_exe env self =
     (if script_var self = []
      then Inl (''Validation Error'', ''Please select a Python script to compile.'')
      else if \<not> PYINSTALLER_AVAILABLE env
      then Inl (''PyInstaller Error'',
                ''PyInstaller is not available. Please install it using:''
                  @ CHR 0x0A # ''pip install pyinstaller'')
      else
        (let script = script_var self;
             output = get_or_None (output_var self);
             icon = get_or_None (icon_var self);
             name = get_or_None (name_var self);
             no_console = no_console_var self;
             one_file = one_file_var self;
             admin = admin_var self;
             clean_build = clean_build_var self;
             force_replace = force_replace_var self;
             optimize = optimize_var self;
             hidden_imports = parse_comma_separated (hidden_imports_var self);
             excluded_modules = parse_comma_separated (excluded_modules_var self);
             data_files = parse_comma_separated (data_files_var self);
             binary_files = parse_comma_separated (binary_files_var self);
             extra_paths = parse_comma_separated (extra_paths_var self);
             cmd0 = [''pyinstaller''];
             cmd1 = (if one_file then list_append cmd0 ''--onefile'' else cmd0);
             cmd2 = (if no_console then list_append cmd1 ''--noconsole'' else cmd1);
             cmd3 = (if admin then list_append cmd2 ''--uac-admin'' else cmd2);
             cmd4 = (if clean_build then list_append cmd3 ''--clean'' else cmd3);
             cmd5 = (if force_replace then list_append cmd4 ''--noconfirm'' else cmd4);
             cmd6 = (if optimize then list_append cmd5 ''--optimize=2'' else cmd5);
             cmd7 = (case output of
                       Some d \<Rightarrow> list_extend cmd6 [''--distpath'', d] | None \<Rightarrow> cmd6);
             cmd8 = (case icon of
                       Some i \<Rightarrow> list_extend cmd7 [''--icon'', i] | None \<Rightarrow> cmd7);
             cmd9 = (case name of
                       Some n \<Rightarrow> list_extend cmd8 [''--name'', n] | None \<Rightarrow> cmd8);
             cmd10 = extend_each ''--hidden-import'' (\<lambda>module. module) hidden_imports cmd9;
             cmd11 = extend_each ''--exclude-module'' (\<lambda>module. module) excluded_modules cmd10;
             cmd12 = extend_each ''--add-data'' (\<lambda>file_path. file_path @ '';.'') data_files cmd11;
             cmd13 = extend_each ''--add-binary'' (\<lambda>file_path. file_path @ '';.'')
                       binary_files cmd12;
             cmd14 = extend_each ''--paths'' (\<lambda>path. path) extra_paths cmd13;
             cmd15 = list_append cmd14 script
         in Inr \<lparr> job_cmd = cmd15, job_output = output, job_script = script \<rparr>))"

text \<open>
  What \<^verbatim>\<open>run_build\<close> shows in the end. Its argument \<open>result\<close> is the return code of
  \<^verbatim>\<open>subprocess.run\<close>, or the exception that call raised; an exception outside
  \<^verbatim>\<open>Exception\<close> passes the handler and ends the thread (\<open>uncaught\<close>). \<^verbatim>\<open>show_build_error\<close> reads its
  local variable \<^verbatim>\<open>dialog\<close> before assigning it; the \<^verbatim>\<open>UnboundLocalError\<close> (with the
  wording of CPython 3.11) reaches the handler of \<^verbatim>\<open>run_build\<close>.
\<close>

datatype 'p shown = show_success_with_explorer 'p | showerror string string | uncaught exc

definition show_build_error :: "exc option" where
  "show_build_error =
     Some (Exc UnboundLocalError
       (''cannot access local variable '' @ CHR 0x27 # ''dialog'' @ CHR 0x27
          # '' where it is not associated with a value'') None)"

definition run_build :: "('p, 'w) os_env \<Rightarrow> build_job \<Rightarrow> exc + int \<Rightarrow> 'p shown" where
  "run_build env job result =
     (case result of
        Inl e \<Rightarrow>
          if is_Exception (exc_class e)
          then showerror ''Build Error'' (''Build failed: '' @ exc_str e)
          else uncaught e
      | Inr returncode \<Rightarrow>
          if returncode = 0
          then show_success_with_explorer
                 (case job_output job of
                    Some out \<Rightarrow> Path env out
                  | None \<Rightarrow> path_parent env (Path env (job_script job)))
          else
            (case show_build_error of
               Some e \<Rightarrow> showerror ''Build Error'' (''Build failed: '' @ exc_str e)
             | None \<Rightarrow> showerror ''Build Failed'' ''The build process encountered an error.''))"

text \<open>
  The constructor call that takes the parameters prepared by \<^verbatim>\<open>build_exe\<close> under
  their own names: the build configuration of the window, seen as one of the class.
\<close>

definition crafter_args_of_form :: "form \<Rightarrow> 'w crafter_args" where
  "crafter_args_of_form self =
     \<lparr> arg_script = Str (script_var self),
       arg_output = get_or_None (output_var self),
       arg_icon = get_or_None (icon_var self),
       arg_name = get_or_None (name_var self),
       arg_no_console = no_console_var self,
       arg_one_file = one_file_var self,
       arg_require_admin = admin_var self,
       arg_clean_build = clean_build_var self,
       arg_force_replace = force_replace_var self,
       arg_optimize = optimize_var self,
       arg_hidden_imports = parse_comma_separated (hidden_imports_var self),
       arg_excluded_modules = parse_comma_separated (excluded_modules_var self),
       arg_data_files = parse_comma_separated (data_files_var self),
       arg_binary_files = parse_comma_separated (binary_files_var self),
       arg_extra_paths = parse_comma_separated (extra_paths_var self),
       arg_progress_callback = None \<rparr>"

section \<open>A sample environment\<close>

text \<open>
  A small environment on which the definitions can be run: a path is its text, the world
  is the list of the paths that exist, and relative paths resolve against \<^verbatim>\<open>/work\<close>.
  As on Linux, \<^verbatim>\<open>is_file\<close> and \<^verbatim>\<open>exists\<close> raise \<^verbatim>\<open>OSError\<close> for a name of more than
  255 bytes, and \<^verbatim>\<open>resolve\<close> raises \<^verbatim>\<open>ValueError\<close> for a null byte.
  The first parameter is \<^verbatim>\<open>PYINSTALLER_AVAILABLE\<close>; the second says whether the
  packaging tool writes the executable it was asked for.
\<close>

definition sample_parent :: "string \<Rightarrow> string" where
  "sample_parent p = rev (drop 1 (dropWhile (\<lambda>ch. ch \<noteq> CHR ''/'') (rev p)))"

definition sample_name :: "string \<Rightarrow> string" where
  "sample_name p = rev (takeWhile (\<lambda>ch. ch \<noteq> CHR ''/'') (rev p))"

definition sample_suffix :: "string \<Rightarrow> string" where
  "sample_suffix p =
     (if CHR ''.'' \<in> set (sample_name p)
      then CHR ''.'' # rev (takeWhile (\<lambda>ch. ch \<noteq> CHR ''.'') (rev (sample_name p)))
      else [])"

definition sample_stem :: "string \<Rightarrow> string" where
  "sample_stem p =
     (if CHR ''.'' \<in> set (sample_name p)
      then rev (drop 1 (dropWhile (\<lambda>ch. ch \<noteq> CHR ''.'') (rev (sample_name p))))
      else sample_name p)"

definition sample_resolve :: "string \<Rightarrow> string" where
  "sample_resolve p = (if take 1 p = ''/'' then p else ''/work/'' @ p)"

definition sample_stat :: "string \<Rightarrow> string list \<Rightarrow> exc + bool" where
  "sample_stat p w =
     (if 255 < length (sample_name p)
      then Inl (Exc OSError ''[Errno 36] File name too long'' None)
      else Inr (sample_resolve p \<in> set w))"

definition sample_env :: "bool \<Rightarrow> bool \<Rightarrow> (string, string list) os_env" where
  "sample_env available produces =
     \<lparr> PYINSTALLER_AVAILABLE = available,
       Path = (\<lambda>s. s),
       path_str = (\<lambda>p. p),
       path_parent = sample_parent,
       path_stem = sample_stem,
       path_suffix = sample_suffix,
       path_with_suffix = (\<lambda>p s. sample_parent p @ ''/'' @ sample_stem p @ s),
       path_join = (\<lambda>p s. p @ ''/'' @ s),
       path_home = ''/home/user'',
       path_is_file = sample_stat,
       path_exists = sample_stat,
       path_resolve = (\<lambda>p w.
         if CHR 0x00 \<in> set p then Inl (Exc ValueError ''embedded null byte'' None)
         else Inr (sample_resolve p)),
       os_access_W_OK = (\<lambda>p w. True),
       path_mkdir = (\<lambda>p w. (None, if p \<in> set w then w else p # w)),
       path_unlink = (\<lambda>p w. (None, removeAll p w)),
       shutil_rmtree = (\<lambda>p w. removeAll p w),
       tempfile_mkdtemp = (\<lambda>prefix w. (''/tmp/'' @ prefix @ ''0'', (''/tmp/'' @ prefix @ ''0'') # w)),
       PyInstaller_run = (\<lambda>cmd w.
         (None, if produces then (cmd ! 4 @ ''/'' @ cmd ! 2 @ ''.exe'') # w else w)) \<rparr>"

definition sample_world :: "string list" where
  "sample_world = [''/work/app.py'', ''/work/main.py'', ''/work'', ''/'']"

definition sample_args :: "string list crafter_args" where
  "sample_args =
     \<lparr> arg_script = Str ''app.py'',
       arg_output = None,
       arg_icon = None,
       arg_name = None,
       arg_no_console = False,
       arg_one_file = True,
       arg_require_admin = False,
       arg_clean_build = False,
       arg_force_replace = False,
       arg_optimize = False,
       arg_hidden_imports = Some ['' os '', '''', ''   '', ''sys''],
       arg_excluded_modules = None,
       arg_data_files = None,
       arg_binary_files = None,
       arg_extra_paths = Some ['' ''],
       arg_progress_callback = None \<rparr>"

definition sample_form :: form where
  "sample_form =
     \<lparr> script_var = ''/work/app.py'',
       output_var = '''',
       icon_var = '''',
       name_var = '''',
       hidden_imports_var = '' os ,, sys'',
       excluded_modules_var = '''',
       data_files_var = ''conf.ini'',
       binary_files_var = '''',
       extra_paths_var = '' '',
       no_console_var = False,
       one_file_var = True,
       admin_var = False,
       clean_build_var = False,
       force_replace_var = False,
       optimize_var = False \<rparr>"

text \<open>
  The same arguments and the same form with whitespace beyond ASCII: the ideographic
  space U+3000 as an item of its own, the word \<^verbatim>\<open>sys\<close> between two no-break spaces
  U+00A0, an em space U+2003 and a no-break space as extra paths.
\<close>

definition sample_args_spaces :: "string list crafter_args" where
  "sample_args_spaces =
     sample_args
       \<lparr> arg_hidden_imports :=
           Some ['' os '', '''', [CHR 0xE3, CHR 0x80, CHR 0x80],
                 CHR 0xC2 # CHR 0xA0 # ''sys'' @ [CHR 0xC2, CHR 0xA0]],
         arg_extra_paths := Some ['' '', [CHR 0xE2, CHR 0x80, CHR 0x83]] \<rparr>"

definition sample_form_spaces :: form where
  "sample_form_spaces =
     sample_form
       \<lparr> hidden_imports_var :=
           '' os ,'' @ [CHR 0xE3, CHR 0x80, CHR 0x80] @ '','' @ CHR 0xC2 # CHR 0xA0 # ''sys,''
             @ [CHR 0xE3, CHR 0x80, CHR 0x80],
         extra_paths_var := [CHR 0x20, CHR 0xC2, CHR 0xA0] \<rparr>"

text \<open>
  The objects that the constructor builds from \<open>sample_args\<close>, and from \<open>sample_args\<close>
  with the icon \<^verbatim>\<open>missing.ico\<close>, which does not exist in the sample world.
\<close>

definition sample_crafter :: "(string, string list) crafter" where
  "sample_crafter =
     \<lparr> script = ''/work/app.py'',
       output_dir = ''/work'',
       icon = None,
       name = ''app'',
       no_console = False,
       one_file = True,
       require_admin = False,
       clean_build = False,
       force_replace = False,
       optimize = False,
       progress_callback = None,
       hidden_imports = [''os'', ''sys''],
       excluded_modules = [],
       data_files = [],
       binary_files = [],
       extra_paths = [] \<rparr>"

definition sample_crafter_icon :: "(string, string list) crafter" where
  "sample_crafter_icon = sample_crafter\<lparr>icon := Some ''/work/missing.ico''\<rparr>"

section \<open>Notions used to state the properties\<close>

text \<open>The arguments that a flag contributes once for each element of a list, in order.\<close>

definition pairs :: "string \<Rightarrow> string list \<Rightarrow> string list" where
  "pairs flag xs = concat (map (\<lambda>x. [flag, x]) xs)"

text \<open>The arguments that a flag contributes when a condition holds.\<close>

definition flag_if :: "bool \<Rightarrow> string list \<Rightarrow> string list" where
  "flag_if b args = (if b then args else [])"

text \<open>An argument that is \<^verbatim>\<open>None\<close> or a list of blank strings only.\<close>

fun all_blank :: "string list option \<Rightarrow> bool" where
  "all_blank None = True"
| "all_blank (Some ys) = list_all blank ys"

definition stripped_nonempty :: "string list \<Rightarrow> bool" where
  "stripped_nonempty xs = list_all (\<lambda>x. x \<noteq> [] \<and> strip x = x) xs"

text \<open>The non-blank entries of a comma-separated field, each stripped.\<close>

definition entries :: "string \<Rightarrow> string list" where
  "entries text = map strip (filter (\<lambda>item. strip item \<noteq> []) (str_split CHR '','' text))"

fun script_text :: "script_arg \<Rightarrow> string" where
  "script_text (Str s) = s"
| "script_text (NonStr b) = []"

text \<open>
  A script argument for which \<^verbatim>\<open>is_file\<close> is not asked or returns: one that is not a
  string or is empty, or a string for which \<^verbatim>\<open>is_file\<close> returns.
\<close>

fun script_checked :: "('p, 'w) os_env \<Rightarrow> 'w \<Rightarrow> script_arg \<Rightarrow> bool" where
  "script_checked env w (NonStr b) = True"
| "script_checked env w (Str s) =
     (s = [] \<or> (case path_is_file env (Path env s) w of Inl e \<Rightarrow> False | Inr b \<Rightarrow> True))"

text \<open>
  A script argument that is a non-empty string naming an existing file whose extension,
  in lower case, is \<^verbatim>\<open>.py\<close>.
\<close>

fun valid_script :: "('p, 'w) os_env \<Rightarrow> 'w \<Rightarrow> script_arg \<Rightarrow> bool" where
  "valid_script env w (NonStr b) = False"
| "valid_script env w (Str s) =
     (s \<noteq> [] \<and> path_is_file env (Path env s) w = Inr True
        \<and> lower (path_suffix env (Path env s)) = ''.py'')"

text \<open>The calls of \<^verbatim>\<open>resolve\<close> in the constructor all return.\<close>

definition resolves ::
  "('p, 'w) os_env \<Rightarrow> 'w crafter_args \<Rightarrow> 'w \<Rightarrow> bool" where
  "resolves env args w =
     (case path_resolve env (Path env (script_text (arg_script args))) w of
        Inl e \<Rightarrow> False
      | Inr self_script \<Rightarrow>
          (case init_output env (arg_output args) self_script w of
             Inl e \<Rightarrow> False | Inr p \<Rightarrow> True)
          \<and> (case init_icon env (arg_icon args) w of
                Inl e \<Rightarrow> False | Inr p \<Rightarrow> True))"

text \<open>The command line that the class generates from the arguments of its constructor.\<close>

definition crafter_command ::
  "('p, 'w) os_env \<Rightarrow> 'w crafter_args \<Rightarrow> 'w \<Rightarrow> exc + string list" where
  "crafter_command env args w =
     (case Crafter_init env args w of
        Inl e \<Rightarrow> Inl e
      | Inr self \<Rightarrow> Inr (fst (build_command env self w)))"

text \<open>
  Two forms that agree on the script path, the icon, the output directory, the console
  and single-file and administrator flags, the hidden imports, the excluded modules, the
  data files, the binary files and the extra search paths.
\<close>

definition same_listed_options :: "form \<Rightarrow> form \<Rightarrow> bool" where
  "same_listed_options f g =
     (script_var f = script_var g \<and> icon_var f = icon_var g
        \<and> output_var f = output_var g \<and> no_console_var f = no_console_var g
        \<and> one_file_var f = one_file_var g \<and> admin_var f = admin_var g
        \<and> hidden_imports_var f = hidden_imports_var g
        \<and> excluded_modules_var f = excluded_modules_var g
        \<and> data_files_var f = data_files_var g
        \<and> binary_files_var f = binary_files_var g
        \<and> extra_paths_var f = extra_paths_var g)"

text \<open>The options on which the two translations agree, as functions of the form.\<close>

definition shared_flags :: "form \<Rightarrow> string list" where
  "shared_flags f =
     flag_if (one_file_var f) [''--onefile''] @ flag_if (no_console_var f) [''--noconsole'']
       @ flag_if (admin_var f) [''--uac-admin'']"

definition shared_modules :: "form \<Rightarrow> string list" where
  "shared_modules f =
     pairs ''--hidden-import'' (entries (hidden_imports_var f))
       @ pairs ''--exclude-module'' (entries (excluded_modules_var f))"

definition shared_paths :: "form \<Rightarrow> string list" where
  "shared_paths f = pairs ''--paths'' (entries (extra_paths_var f))"

text \<open>
  An option influences a translation when changing it alone, on the sample
  configuration, changes the command.
\<close>

definition changes_crafter_command :: "string list crafter_args \<Rightarrow> bool" where
  "changes_crafter_command args =
     (crafter_command (sample_env True True) args sample_world
        \<noteq> crafter_command (sample_env True True) sample_args sample_world)"

definition changes_build_exe :: "form \<Rightarrow> bool" where
  "changes_build_exe f =
     (build_exe (sample_env True True) f \<noteq> build_exe (sample_env True True) sample_form)"

section \<open>Properties of the string operations\<close>

lemma starts_with_take: "starts_with s w \<longleftrightarrow> take (length w) s = w"
  by (induction s w rule: starts_with.induct) auto

lemma match_prefix_Some:
  assumes "match_prefix W s = Some w"
  shows "w \<in> set W" and "w \<noteq> []" and "take (length w) s = w"
  using assms by (auto simp: match_prefix_def find_Some_iff starts_with_take)

lemma match_prefix_None:
  "match_prefix W s = None \<longleftrightarrow> (\<forall>w \<in> set W. w = [] \<or> take (length w) s \<noteq> w)"
  by (auto simp: match_prefix_def find_None_iff starts_with_take)

lemma match_prefix_Nil: "match_prefix W [] = None"
  by (auto simp: match_prefix_None)

lemma strip_prefixes_fixed: "match_prefix W s = None \<Longrightarrow> strip_prefixes W s = s"
  by (simp add: strip_prefixes.simps [of W s])

lemma strip_prefixes_Nil: "strip_prefixes W [] = []"
  by (simp add: strip_prefixes_fixed match_prefix_Nil)

lemma strip_prefixes_step:
  "match_prefix W s = Some w \<Longrightarrow> strip_prefixes W s = strip_prefixes W (drop (length w) s)"
  by (simp add: strip_prefixes.simps [of W s])

lemma strip_prefixes_no_match: "match_prefix W (strip_prefixes W s) = None"
proof (induction W s rule: strip_prefixes.induct)
  case (1 W s)
  show ?case
  proof (cases "match_prefix W s")
    case None
    then show ?thesis by (simp add: strip_prefixes_fixed)
  next
    case (Some w)
    with "1.IH" show ?thesis by (simp add: strip_prefixes_step)
  qed
qed

lemma strip_prefixes_idem: "strip_prefixes W (strip_prefixes W s) = strip_prefixes W s"
  by (simp add: strip_prefixes_fixed strip_prefixes_no_match)

text \<open>What remains is the end of the string.\<close>

lemma strip_prefixes_suffix: "\<exists>p. s = p @ strip_prefixes W s"
proof (induction W s rule: strip_prefixes.induct)
  case (1 W s)
  show ?case
  proof (cases "match_prefix W s")
    case None
    then show ?thesis by (simp add: strip_prefixes_fixed)
  next
    case (Some w)
    with "1.IH" obtain p where "drop (length w) s = p @ strip_prefixes W (drop (length w) s)"
      by blast
    then have "s = (take (length w) s @ p) @ strip_prefixes W (drop (length w) s)"
      by (metis append_assoc append_take_drop_id)
    with Some show ?thesis by (metis strip_prefixes_step)
  qed
qed

text \<open>A string that is stripped away entirely ends with one of the encodings.\<close>

lemma strip_prefixes_all:
  "strip_prefixes W s = [] \<Longrightarrow> s \<noteq> [] \<Longrightarrow> \<exists>w \<in> set W. w \<noteq> [] \<and> (\<exists>p. s = p @ w)"
proof (induction W s rule: strip_prefixes.induct)
  case (1 W s)
  show ?case
  proof (cases "match_prefix W s")
    case None
    with "1.prems" show ?thesis by (simp add: strip_prefixes_fixed)
  next
    case (Some w)
    note w = match_prefix_Some [OF Some]
    show ?thesis
    proof (cases "drop (length w) s = []")
      case True
      then have "s = [] @ w" using w(3) by (metis append_Nil append_Nil2 append_take_drop_id)
      with w show ?thesis by blast
    next
      case False
      from "1.prems"(1) Some have "strip_prefixes W (drop (length w) s) = []"
        by (simp add: strip_prefixes_step)
      with "1.IH" [OF Some] False obtain v p where
        v: "v \<in> set W" "v \<noteq> []" "drop (length w) s = p @ v" by blast
      then have "s = (take (length w) s @ p) @ v"
        by (metis append_assoc append_take_drop_id)
      with v show ?thesis by blast
    qed
  qed
qed

text \<open>A string that is stripped away entirely holds only bytes of the encodings.\<close>

lemma strip_prefixes_all_bytes:
  "strip_prefixes W s = [] \<Longrightarrow> set s \<subseteq> \<Union> (set ` set W)"
proof (induction W s rule: strip_prefixes.induct)
  case (1 W s)
  show ?case
  proof (cases "match_prefix W s")
    case None
    with "1.prems" show ?thesis by (simp add: strip_prefixes_fixed)
  next
    case (Some w)
    note w = match_prefix_Some [OF Some]
    from "1.prems" Some have "strip_prefixes W (drop (length w) s) = []"
      by (simp add: strip_prefixes_step)
    with "1.IH" [OF Some] have d: "set (drop (length w) s) \<subseteq> \<Union> (set ` set W)" .
    have "set (take (length w) s) \<subseteq> \<Union> (set ` set W)"
      using w(1,3) by auto
    moreover have "set s = set (take (length w) s) \<union> set (drop (length w) s)"
      by (metis append_take_drop_id set_append)
    ultimately show ?thesis using d by auto
  qed
qed

lemma match_prefix_of_prefix:
  assumes "match_prefix W (t @ q) = None"
  shows "match_prefix W t = None"
  unfolding match_prefix_None
proof (intro ballI)
  fix w assume "w \<in> set W"
  with assms have n: "w = [] \<or> take (length w) (t @ q) \<noteq> w"
    by (simp add: match_prefix_None)
  show "w = [] \<or> take (length w) t \<noteq> w"
  proof (rule ccontr)
    assume "\<not> (w = [] \<or> take (length w) t \<noteq> w)"
    then have "w \<noteq> []" and t: "take (length w) t = w" by simp_all
    from t have "length (take (length w) t) = length w" by simp
    then have "length w \<le> length t"
      by (simp add: min_def split: if_splits)
    then have "take (length w) (t @ q) = take (length w) t" by simp
    with t n \<open>w \<noteq> []\<close> show False by simp
  qed
qed

lemma lstrip_no_match: "match_prefix whitespace (lstrip s) = None"
  by (simp add: lstrip_def strip_prefixes_no_match)

lemma strip_prefix_of_lstrip: "\<exists>q. lstrip s = strip s @ q"
proof -
  from strip_prefixes_suffix [of "rev (lstrip s)" "map rev whitespace"] obtain p where
    "rev (lstrip s) = p @ strip_prefixes (map rev whitespace) (rev (lstrip s))" ..
  then have "lstrip s = rev (strip_prefixes (map rev whitespace) (rev (lstrip s))) @ rev p"
    by (metis rev_append rev_rev_ident)
  then show ?thesis by (auto simp: strip_def rstrip_def)
qed

lemma strip_idem: "strip (strip s) = strip s"
proof -
  from strip_prefix_of_lstrip obtain q where q: "lstrip s = strip s @ q" ..
  have "match_prefix whitespace (strip s @ q) = None"
    using lstrip_no_match [of s] unfolding q .
  then have "match_prefix whitespace (strip s) = None"
    by (rule match_prefix_of_prefix)
  then have l: "lstrip (strip s) = strip s"
    by (simp add: lstrip_def strip_prefixes_fixed)
  have "rstrip (strip s) = strip s"
    by (simp add: strip_def rstrip_def strip_prefixes_idem)
  with l show ?thesis by (simp add: strip_def [of "strip s"])
qed

text \<open>A string is blank exactly when stripping it leaves nothing.\<close>

lemma strip_eq_Nil_iff: "strip s = [] \<longleftrightarrow> blank s"
proof
  assume "blank s"
  then show "strip s = []"
    by (simp add: blank_def strip_def rstrip_def strip_prefixes_Nil)
next
  assume e: "strip s = []"
  show "blank s"
  proof (rule ccontr)
    assume "\<not> blank s"
    then have n: "rev (lstrip s) \<noteq> []" by (simp add: blank_def)
    from e have "strip_prefixes (map rev whitespace) (rev (lstrip s)) = []"
      by (simp add: strip_def rstrip_def)
    from strip_prefixes_all [OF this n] obtain v p where
      v: "v \<in> set (map rev whitespace)" "v \<noteq> []" "rev (lstrip s) = p @ v" by blast
    then have r: "rev v \<in> set whitespace" "rev v \<noteq> []" by auto
    from v(3) have "lstrip s = rev v @ rev p" by (metis rev_append rev_rev_ident)
    then have "take (length (rev v)) (lstrip s) = rev v" by simp
    with r have "match_prefix whitespace (lstrip s) \<noteq> None"
      by (auto simp: match_prefix_None)
    with lstrip_no_match [of s] show False by simp
  qed
qed

lemma whitespace_no_comma: "CHR '','' \<notin> \<Union> (set ` set whitespace)"
  by (simp add: whitespace_def)

lemma blank_no_comma: "blank t \<Longrightarrow> CHR '','' \<notin> set t"
  using strip_prefixes_all_bytes [of whitespace t] whitespace_no_comma
  by (auto simp: blank_def lstrip_def)

lemma clean_list_elems:
  "x \<in> set (clean_list xs) \<Longrightarrow> x \<noteq> [] \<and> strip x = x"
  by (auto simp: clean_list_def strip_idem)

lemma clean_list_None: "clean_list None = []"
  by (simp add: clean_list_def)

lemma clean_list_blank:
  "list_all blank ys \<Longrightarrow> clean_list (Some ys) = []"
  by (auto simp: clean_list_def filter_empty_conv strip_eq_Nil_iff list_all_iff)

lemma clean_list_fixed:
  assumes "list_all (\<lambda>x. x \<noteq> [] \<and> strip x = x) ys"
  shows "clean_list (Some ys) = ys"
proof -
  have f: "filter (\<lambda>item. item \<noteq> [] \<and> strip item \<noteq> []) ys = ys"
    using assms by (auto simp: list_all_iff intro!: filter_True)
  have "map strip ys = ys"
    using assms by (auto simp: list_all_iff intro!: map_idI)
  with f show ?thesis by (simp add: clean_list_def)
qed

section \<open>The command of the class\<close>

lemma fold_extend_pairs:
  "fold (\<lambda>x acc. list_extend acc [flag, g x]) xs cmd = cmd @ pairs flag (map g xs)"
  by (induction xs arbitrary: cmd) (simp_all add: pairs_def list_extend_def)

lemma fold_extend_pairs_id:
  "fold (\<lambda>x acc. list_extend acc [flag, x]) xs cmd = cmd @ pairs flag xs"
  using fold_extend_pairs [of flag "\<lambda>x. x" xs cmd] by simp

lemma build_command_cmd:
  "fst (build_command env self w) =
     [path_str env (script self),
      ''--name'', name self,
      ''--distpath'', path_str env (output_dir self),
      ''--workpath'',
        path_str env (Path env (fst (tempfile_mkdtemp env ''pyinstaller_work_'' w))),
      ''--specpath'',
        path_str env (Path env (fst (tempfile_mkdtemp env ''pyinstaller_spec_''
          (snd (tempfile_mkdtemp env ''pyinstaller_work_'' w)))))]
     @ (case icon self of Some ic \<Rightarrow> [''--icon'', path_str env ic] | None \<Rightarrow> [])
     @ flag_if (one_file self) [''--onefile'']
     @ flag_if (no_console self) [''--noconsole'']
     @ flag_if (require_admin self) [''--uac-admin'']
     @ flag_if (optimize self) [''--optimize'', ''2'']
     @ pairs ''--hidden-import'' (hidden_imports self)
     @ pairs ''--exclude-module'' (excluded_modules self)
     @ pairs ''--add-data'' (data_files self)
     @ pairs ''--add-binary'' (binary_files self)
     @ pairs ''--paths'' (extra_paths self)"
  unfolding build_command_def Let_def fold_extend_pairs_id
  by (simp add: flag_if_def list_extend_def list_append_def
        split: prod.split option.split)

text \<open>
  C1. The command of \<^verbatim>\<open>_build_command\<close> is the script path, \<^verbatim>\<open>--name\<close> and the name,
  \<^verbatim>\<open>--distpath\<close> and the output directory, \<^verbatim>\<open>--workpath\<close> and \<^verbatim>\<open>--specpath\<close> with the two
  fresh temporary directories, then \<^verbatim>\<open>--icon\<close> with the icon exactly when there is one,
  \<^verbatim>\<open>--onefile\<close>, \<^verbatim>\<open>--noconsole\<close>, \<^verbatim>\<open>--uac-admin\<close> and \<^verbatim>\<open>--optimize 2\<close> exactly under their
  flags, then one pair for each hidden import, excluded module, data file, binary file
  and extra path, in list order, and nothing else.
\<close>

theorem build_command_layout:
  "fst (build_command env self w) =
     [path_str env (script self),
      ''--name'', name self,
      ''--distpath'', path_str env (output_dir self),
      ''--workpath'',
        path_str env (Path env (fst (tempfile_mkdtemp env ''pyinstaller_work_'' w))),
      ''--specpath'',
        path_str env (Path env (fst (tempfile_mkdtemp env ''pyinstaller_spec_''
          (snd (tempfile_mkdtemp env ''pyinstaller_work_'' w)))))]
     @ (case icon self of Some ic \<Rightarrow> [''--icon'', path_str env ic] | None \<Rightarrow> [])
     @ flag_if (one_file self) [''--onefile'']
     @ flag_if (no_console self) [''--noconsole'']
     @ flag_if (require_admin self) [''--uac-admin'']
     @ flag_if (optimize self) [''--optimize'', ''2'']
     @ pairs ''--hidden-import'' (hidden_imports self)
     @ pairs ''--exclude-module'' (excluded_modules self)
     @ pairs ''--add-data'' (data_files self)
     @ pairs ''--add-binary'' (binary_files self)
     @ pairs ''--paths'' (extra_paths self)"
  by (rule build_command_cmd)

section \<open>The constructor of the class\<close>

lemma Crafter_init_rejects:
  assumes "script_checked env w (arg_script args)"
    and "\<not> valid_script env w (arg_script args)"
  shows "\<exists>m. Crafter_init env args w = Inl (Exc CrafterError m None)"
proof (cases "arg_script args")
  case (NonStr b)
  then show ?thesis by (simp add: Crafter_init_def)
next
  case (Str s)
  show ?thesis
  proof (cases "s = []")
    case True
    with Str show ?thesis by (simp add: Crafter_init_def)
  next
    case False
    with assms(1) Str obtain b where b: "path_is_file env (Path env s) w = Inr b"
      by (cases "path_is_file env (Path env s) w") simp_all
    with assms(2) Str False
    have "\<not> b \<or> lower (path_suffix env (Path env s)) \<noteq> ''.py''" by auto
    with Str False b show ?thesis by (simp add: Crafter_init_def Let_def)
  qed
qed

text \<open>What \<^verbatim>\<open>is_file\<close> raises leaves the constructor.\<close>

lemma Crafter_init_is_file_raises:
  assumes "PYINSTALLER_AVAILABLE env" and "\<not> script_checked env w (arg_script args)"
  shows "\<exists>e. path_is_file env (Path env (script_text (arg_script args))) w = Inl e
           \<and> Crafter_init env args w = Inl e"
proof (cases "arg_script args")
  case (NonStr b)
  with assms(2) show ?thesis by simp
next
  case (Str s)
  with assms(2) have n: "s \<noteq> []" by auto
  from assms(2) Str obtain e where e: "path_is_file env (Path env s) w = Inl e"
    by (cases "path_is_file env (Path env s) w") simp_all
  with assms(1) Str n show ?thesis by (simp add: Crafter_init_def Let_def)
qed

text \<open>
  For a valid script, with PyInstaller, the constructor goes on to the three calls of
  \<^verbatim>\<open>resolve\<close>.
\<close>

lemma Crafter_init_valid_script:
  assumes "PYINSTALLER_AVAILABLE env" and "valid_script env w (arg_script args)"
  shows "Crafter_init env args w =
     (case path_resolve env (Path env (script_text (arg_script args))) w of
        Inl e \<Rightarrow> Inl e
      | Inr self_script \<Rightarrow>
          (case init_output env (arg_output args) self_script w of
             Inl e \<Rightarrow> Inl e
           | Inr self_output \<Rightarrow>
               (case init_icon env (arg_icon args) w of
                  Inl e \<Rightarrow> Inl e
                | Inr self_icon \<Rightarrow>
                    Inr \<lparr> script = self_script,
                          output_dir = self_output,
                          icon = self_icon,
                          name = (if truthy (arg_name args) then the (arg_name args)
                                  else path_stem env self_script),
                          no_console = arg_no_console args,
                          one_file = arg_one_file args,
                          require_admin = arg_require_admin args,
                          clean_build = arg_clean_build args,
                          force_replace = arg_force_replace args,
                          optimize = arg_optimize args,
                          progress_callback = arg_progress_callback args,
                          hidden_imports = clean_list (arg_hidden_imports args),
                          excluded_modules = clean_list (arg_excluded_modules args),
                          data_files = clean_list (arg_data_files args),
                          binary_files = clean_list (arg_binary_files args),
                          extra_paths = clean_list (arg_extra_paths args) \<rparr>)))"
proof -
  from assms(2) obtain s where s: "arg_script args = Str s"
    by (cases "arg_script args") simp_all
  with assms(2) have v: "s \<noteq> []" "path_is_file env (Path env s) w = Inr True"
    "lower (path_suffix env (Path env s)) = ''.py''"
    by simp_all
  have n: "\<And>p. (case arg_name args of
                    None \<Rightarrow> path_stem env p
                  | Some n \<Rightarrow> if n \<noteq> [] then n else path_stem env p)
                = (if truthy (arg_name args) then the (arg_name args) else path_stem env p)"
    by (cases "arg_name args") simp_all
  show ?thesis
    unfolding Crafter_init_def Let_def s script_arg.case n script_text.simps
    using assms(1) v by simp
qed


lemma Crafter_init_guards:
  assumes "Crafter_init env args w = Inr self"
  shows "PYINSTALLER_AVAILABLE env" and "valid_script env w (arg_script args)"
    and "resolves env args w"
proof -
  show a: "PYINSTALLER_AVAILABLE env"
  proof (rule ccontr)
    assume "\<not> PYINSTALLER_AVAILABLE env"
    then have "\<exists>e. Crafter_init env args w = Inl e"
      by (simp add: Crafter_init_def)
    with assms show False by auto
  qed
  have c: "script_checked env w (arg_script args)"
  proof (rule ccontr)
    assume "\<not> script_checked env w (arg_script args)"
    from Crafter_init_is_file_raises [OF a this] assms show False by auto
  qed
  show v: "valid_script env w (arg_script args)"
  proof (rule ccontr)
    assume "\<not> valid_script env w (arg_script args)"
    from Crafter_init_rejects [OF c this] assms show False by auto
  qed
  show "resolves env args w"
    using assms unfolding Crafter_init_valid_script [OF a v] resolves_def
    by (auto split: sum.splits)
qed

lemma Crafter_init_Inr:
  assumes "Crafter_init env args w = Inr self"
  shows "PYINSTALLER_AVAILABLE env"
    and "valid_script env w (arg_script args)"
    and "path_resolve env (Path env (script_text (arg_script args))) w = Inr (script self)"
    and "init_output env (arg_output args) (script self) w = Inr (output_dir self)"
    and "name self =
           (if truthy (arg_name args) then the (arg_name args)
            else path_stem env (script self))"
    and "init_icon env (arg_icon args) w = Inr (icon self)"
    and "no_console self = arg_no_console args"
    and "one_file self = arg_one_file args"
    and "require_admin self = arg_require_admin args"
    and "optimize self = arg_optimize args"
    and "hidden_imports self = clean_list (arg_hidden_imports args)"
    and "excluded_modules self = clean_list (arg_excluded_modules args)"
    and "data_files self = clean_list (arg_data_files args)"
    and "binary_files self = clean_list (arg_binary_files args)"
    and "extra_paths self = clean_list (arg_extra_paths args)"
proof -
  note g = Crafter_init_guards [OF assms]
  show "PYINSTALLER_AVAILABLE env" and "valid_script env w (arg_script args)"
    using g by simp_all
  from g(3) obtain sp so si where
    sp: "path_resolve env (Path env (script_text (arg_script args))) w = Inr sp" and
    so: "init_output env (arg_output args) sp w = Inr so" and
    si: "init_icon env (arg_icon args) w = Inr si"
    unfolding resolves_def by (auto split: sum.splits)
  have "Crafter_init env args w = Inr
     \<lparr> script = sp, output_dir = so, icon = si,
       name = (if truthy (arg_name args) then the (arg_name args) else path_stem env sp),
       no_console = arg_no_console args,
       one_file = arg_one_file args,
       require_admin = arg_require_admin args,
       clean_build = arg_clean_build args,
       force_replace = arg_force_replace args,
       optimize = arg_optimize args,
       progress_callback = arg_progress_callback args,
       hidden_imports = clean_list (arg_hidden_imports args),
       excluded_modules = clean_list (arg_excluded_modules args),
       data_files = clean_list (arg_data_files args),
       binary_files = clean_list (arg_binary_files args),
       extra_paths = clean_list (arg_extra_paths args) \<rparr>"
    by (simp only: Crafter_init_valid_script [OF g(1,2)] sp so si sum.case)
  with assms have r: "self =
     \<lparr> script = sp, output_dir = so, icon = si,
       name = (if truthy (arg_name args) then the (arg_name args) else path_stem env sp),
       no_console = arg_no_console args,
       one_file = arg_one_file args,
       require_admin = arg_require_admin args,
       clean_build = arg_clean_build args,
       force_replace = arg_force_replace args,
       optimize = arg_optimize args,
       progress_callback = arg_progress_callback args,
       hidden_imports = clean_list (arg_hidden_imports args),
       excluded_modules = clean_list (arg_excluded_modules args),
       data_files = clean_list (arg_data_files args),
       binary_files = clean_list (arg_binary_files args),
       extra_paths = clean_list (arg_extra_paths args) \<rparr>"
    by simp
  have s: "script self = sp" by (subst r) simp
  show "path_resolve env (Path env (script_text (arg_script args))) w = Inr (script self)"
    unfolding s by (rule sp)
  have "output_dir self = so" by (subst r) simp
  then show "init_output env (arg_output args) (script self) w = Inr (output_dir self)"
    unfolding s using so by simp
  have "name self =
          (if truthy (arg_name args) then the (arg_name args) else path_stem env sp)"
    by (subst r) simp
  then show "name self =
           (if truthy (arg_name args) then the (arg_name args)
            else path_stem env (script self))"
    unfolding s .
  have "icon self = si" by (subst r) simp
  then show "init_icon env (arg_icon args) w = Inr (icon self)"
    using si by simp
  show "no_console self = arg_no_console args" by (subst r) simp
  show "one_file self = arg_one_file args" by (subst r) simp
  show "require_admin self = arg_require_admin args" by (subst r) simp
  show "optimize self = arg_optimize args" by (subst r) simp
  show "hidden_imports self = clean_list (arg_hidden_imports args)" by (subst r) simp
  show "excluded_modules self = clean_list (arg_excluded_modules args)" by (subst r) simp
  show "data_files self = clean_list (arg_data_files args)" by (subst r) simp
  show "binary_files self = clean_list (arg_binary_files args)" by (subst r) simp
  show "extra_paths self = clean_list (arg_extra_paths args)" by (subst r) simp
qed

lemma clean_list_stripped: "stripped_nonempty (clean_list xs)"
  using clean_list_elems [of _ xs] by (auto simp: stripped_nonempty_def list_all_iff)

lemma clean_list_all_blank: "all_blank xs \<Longrightarrow> clean_list xs = []"
  by (cases xs) (simp_all add: clean_list_None clean_list_blank)

text \<open>
  C8. After \<^verbatim>\<open>__init__\<close> has returned, every element of each of the five list
  attributes is a non-empty string equal to its own stripped form, and an argument that
  is \<^verbatim>\<open>None\<close> or a list of blank strings only gives the empty list.
\<close>

theorem Crafter_init_lists:
  assumes "Crafter_init env args w = Inr self"
  shows "stripped_nonempty (hidden_imports self)
       \<and> stripped_nonempty (excluded_modules self)
       \<and> stripped_nonempty (data_files self)
       \<and> stripped_nonempty (binary_files self)
       \<and> stripped_nonempty (extra_paths self)
       \<and> (all_blank (arg_hidden_imports args) \<longrightarrow> hidden_imports self = [])
       \<and> (all_blank (arg_excluded_modules args) \<longrightarrow> excluded_modules self = [])
       \<and> (all_blank (arg_data_files args) \<longrightarrow> data_files self = [])
       \<and> (all_blank (arg_binary_files args) \<longrightarrow> binary_files self = [])
       \<and> (all_blank (arg_extra_paths args) \<longrightarrow> extra_paths self = [])"
  using Crafter_init_Inr(11-15) [OF assms]
  by (simp add: clean_list_stripped clean_list_all_blank)

lemma sample_init_succeeds:
  "(case Crafter_init (sample_env True True) sample_args sample_world of
      Inr self \<Rightarrow> True | Inl e \<Rightarrow> False)"
  by code_simp

text \<open>
  The constructor on the sample arguments with whitespace beyond ASCII, and on arguments
  whose lists are all blank.
\<close>

lemma sample_init_spaces:
  "(case Crafter_init (sample_env True True) sample_args_spaces sample_world of
      Inr self \<Rightarrow> hidden_imports self = [''os'', ''sys'']
    | Inl e \<Rightarrow> False)"
  by code_simp

lemma sample_init_blank_succeeds:
  "(case Crafter_init (sample_env True True)
           (sample_args_spaces\<lparr>arg_hidden_imports := Some ['''', [CHR 0xC2, CHR 0xA0]]\<rparr>)
           sample_world of
      Inr self \<Rightarrow> True | Inl e \<Rightarrow> False)"
  by code_simp

lemma sample_blank_arguments:
  "all_blank (arg_extra_paths sample_args_spaces)
   \<and> all_blank (arg_hidden_imports
        (sample_args_spaces\<lparr>arg_hidden_imports := Some ['''', [CHR 0xC2, CHR 0xA0]]\<rparr>))
   \<and> all_blank (arg_excluded_modules
        (sample_args_spaces\<lparr>arg_hidden_imports := Some ['''', [CHR 0xC2, CHR 0xA0]]\<rparr>))
   \<and> all_blank (arg_data_files
        (sample_args_spaces\<lparr>arg_hidden_imports := Some ['''', [CHR 0xC2, CHR 0xA0]]\<rparr>))
   \<and> all_blank (arg_binary_files
        (sample_args_spaces\<lparr>arg_hidden_imports := Some ['''', [CHR 0xC2, CHR 0xA0]]\<rparr>))
   \<and> all_blank (arg_extra_paths
        (sample_args_spaces\<lparr>arg_hidden_imports := Some ['''', [CHR 0xC2, CHR 0xA0]]\<rparr>))"
  by code_simp

theorem Crafter_init_lists_witness:
  "(case Crafter_init (sample_env True True) sample_args_spaces sample_world of
      Inr self \<Rightarrow> hidden_imports self = [''os'', ''sys'']
                   \<and> stripped_nonempty (hidden_imports self) \<and> extra_paths self = []
    | Inl e \<Rightarrow> False)
   \<and> (case Crafter_init (sample_env True True)
              (sample_args_spaces\<lparr>arg_hidden_imports := Some ['''', [CHR 0xC2, CHR 0xA0]]\<rparr>)
              sample_world of
         Inr self \<Rightarrow> hidden_imports self = [] \<and> excluded_modules self = []
                      \<and> data_files self = [] \<and> binary_files self = []
                      \<and> extra_paths self = []
       | Inl e \<Rightarrow> False)"
proof -
  obtain s1 where h1:
    "Crafter_init (sample_env True True) sample_args_spaces sample_world = Inr s1"
    and v1: "hidden_imports s1 = [''os'', ''sys'']"
    using sample_init_spaces by (auto split: sum.splits)
  obtain s2 where h2:
    "Crafter_init (sample_env True True)
       (sample_args_spaces\<lparr>arg_hidden_imports := Some ['''', [CHR 0xC2, CHR 0xA0]]\<rparr>)
       sample_world = Inr s2"
    using sample_init_blank_succeeds by (auto split: sum.splits)
  from Crafter_init_lists [OF h1] sample_blank_arguments
  have "stripped_nonempty (hidden_imports s1) \<and> extra_paths s1 = []" by blast
  moreover from Crafter_init_lists [OF h2] sample_blank_arguments
  have "hidden_imports s2 = [] \<and> excluded_modules s2 = [] \<and> data_files s2 = []
        \<and> binary_files s2 = [] \<and> extra_paths s2 = []" by blast
  ultimately show ?thesis by (simp add: h1 h2 v1)
qed



text \<open>
  Sample arguments: a text file, a name of 300 bytes, and a script, an output directory
  and an icon with a null byte.
\<close>

lemma sample_available: "PYINSTALLER_AVAILABLE (sample_env True True)"
  by (simp add: sample_env_def)


lemma sample_resolve_app:
  "path_resolve (sample_env True True) (Path (sample_env True True) ''app.py'') sample_world
     = Inr ''/work/app.py''"
  by code_simp






section \<open>The command of the window\<close>

lemma str_split_no_sep: "sep \<notin> set t \<Longrightarrow> str_split sep t = [t]"
  by (induction t) auto

lemma entries_blank:
  assumes "strip t = []"
  shows "entries t = []"
proof -
  from assms have "blank t" by (simp add: strip_eq_Nil_iff)
  then have "CHR '','' \<notin> set t" by (rule blank_no_comma)
  then have "str_split CHR '','' t = [t]" by (rule str_split_no_sep)
  with assms show ?thesis by (simp add: entries_def)
qed

lemma parse_comma_separated_entries:
  "(case parse_comma_separated t of None \<Rightarrow> [] | Some ys \<Rightarrow> ys) = entries t"
  by (simp add: parse_comma_separated_def entries_blank) (simp add: entries_def)

lemma extend_each_pairs:
  "extend_each flag g xs cmd
     = cmd @ pairs flag (map g (case xs of None \<Rightarrow> [] | Some ys \<Rightarrow> ys))"
proof (cases xs)
  case None
  then show ?thesis by (simp add: extend_each_def pairs_def)
next
  case (Some ys)
  then show ?thesis
    by (cases "ys = []") (simp_all add: extend_each_def fold_extend_pairs pairs_def)
qed

lemma if_list_append: "(if b then list_append cmd x else cmd) = cmd @ flag_if b [x]"
  by (simp add: list_append_def flag_if_def)

lemma case_list_extend:
  "(case v of Some d \<Rightarrow> list_extend cmd [flag, d] | None \<Rightarrow> cmd)
     = cmd @ (case v of Some d \<Rightarrow> [flag, d] | None \<Rightarrow> [])"
  by (simp add: list_extend_def split: option.split)

lemma case_get_or_None:
  "(case get_or_None v of Some d \<Rightarrow> [flag, d] | None \<Rightarrow> []) = flag_if (v \<noteq> []) [flag, v]"
  by (simp add: get_or_None_def flag_if_def)

lemma build_exe_guards:
  assumes "build_exe env f = Inr job"
  shows "script_var f \<noteq> []" and "PYINSTALLER_AVAILABLE env"
proof -
  show "script_var f \<noteq> []"
  proof
    assume "script_var f = []"
    then have "build_exe env f
                 = Inl (''Validation Error'', ''Please select a Python script to compile.'')"
      by (simp add: build_exe_def)
    with assms show False by simp
  qed
  then have n: "script_var f \<noteq> []" .
  show "PYINSTALLER_AVAILABLE env"
  proof (rule ccontr)
    assume "\<not> PYINSTALLER_AVAILABLE env"
    with n have "\<exists>e. build_exe env f = Inl e"
      by (simp add: build_exe_def)
    with assms show False by auto
  qed
qed

lemma build_exe_job:
  assumes "script_var f \<noteq> []" and "PYINSTALLER_AVAILABLE env"
  shows "build_exe env f =
     Inr \<lparr> job_cmd =
             [''pyinstaller'']
             @ flag_if (one_file_var f) [''--onefile'']
             @ flag_if (no_console_var f) [''--noconsole'']
             @ flag_if (admin_var f) [''--uac-admin'']
             @ flag_if (clean_build_var f) [''--clean'']
             @ flag_if (force_replace_var f) [''--noconfirm'']
             @ flag_if (optimize_var f) [''--optimize=2'']
             @ flag_if (output_var f \<noteq> []) [''--distpath'', output_var f]
             @ flag_if (icon_var f \<noteq> []) [''--icon'', icon_var f]
             @ flag_if (name_var f \<noteq> []) [''--name'', name_var f]
             @ pairs ''--hidden-import'' (entries (hidden_imports_var f))
             @ pairs ''--exclude-module'' (entries (excluded_modules_var f))
             @ pairs ''--add-data'' (map (\<lambda>e. e @ '';.'') (entries (data_files_var f)))
             @ pairs ''--add-binary'' (map (\<lambda>e. e @ '';.'') (entries (binary_files_var f)))
             @ pairs ''--paths'' (entries (extra_paths_var f))
             @ [script_var f],
           job_output = get_or_None (output_var f),
           job_script = script_var f \<rparr>"
  unfolding build_exe_def if_list_append case_list_extend extend_each_pairs
  unfolding Let_def parse_comma_separated_entries case_get_or_None
  using assms by (simp add: list_append_def)


lemma sample_form_script:
  "script_var sample_form \<noteq> []" "script_var sample_form_spaces \<noteq> []"
  by (simp_all add: sample_form_def sample_form_spaces_def)

text \<open>The layout on the sample form with whitespace beyond ASCII.\<close>

lemma sample_form_layout:
  "[''pyinstaller'']
     @ flag_if (one_file_var sample_form_spaces) [''--onefile'']
     @ flag_if (no_console_var sample_form_spaces) [''--noconsole'']
     @ flag_if (admin_var sample_form_spaces) [''--uac-admin'']
     @ flag_if (clean_build_var sample_form_spaces) [''--clean'']
     @ flag_if (force_replace_var sample_form_spaces) [''--noconfirm'']
     @ flag_if (optimize_var sample_form_spaces) [''--optimize=2'']
     @ flag_if (output_var sample_form_spaces \<noteq> [])
         [''--distpath'', output_var sample_form_spaces]
     @ flag_if (icon_var sample_form_spaces \<noteq> []) [''--icon'', icon_var sample_form_spaces]
     @ flag_if (name_var sample_form_spaces \<noteq> []) [''--name'', name_var sample_form_spaces]
     @ pairs ''--hidden-import'' (entries (hidden_imports_var sample_form_spaces))
     @ pairs ''--exclude-module'' (entries (excluded_modules_var sample_form_spaces))
     @ pairs ''--add-data''
         (map (\<lambda>e. e @ '';.'') (entries (data_files_var sample_form_spaces)))
     @ pairs ''--add-binary''
         (map (\<lambda>e. e @ '';.'') (entries (binary_files_var sample_form_spaces)))
     @ pairs ''--paths'' (entries (extra_paths_var sample_form_spaces))
     @ [script_var sample_form_spaces]
   = [''pyinstaller'', ''--onefile'', ''--hidden-import'', ''os'', ''--hidden-import'', ''sys'',
      ''--add-data'', ''conf.ini;.'', ''/work/app.py'']"
  by code_simp



section \<open>The default output directory\<close>

text \<open>
  C7. When no output directory is supplied, \<^verbatim>\<open>Crafter.__init__\<close> sets the output to the
  parent of the script, and \<^verbatim>\<open>run_build\<close> reports the parent of the script as the
  output path after a run that returned 0.
\<close>

theorem output_defaults_to_parent:
  "(Crafter_init env args w = Inr self \<and> \<not> truthy (arg_output args) \<longrightarrow>
      output_dir self = path_parent env (script self))
   \<and> (build_exe env f = Inr job \<and> output_var f = [] \<longrightarrow>
        run_build env job (Inr 0)
          = show_success_with_explorer (path_parent env (Path env (script_var f))))"
proof (intro conjI impI)
  assume a: "Crafter_init env args w = Inr self \<and> \<not> truthy (arg_output args)"
  then have "init_output env (arg_output args) (script self) w
               = Inr (path_parent env (script self))"
    by (cases "arg_output args") (simp_all add: init_output_def)
  with a show "output_dir self = path_parent env (script self)"
    using Crafter_init_Inr(4) [of env args w self] by simp
next
  assume a: "build_exe env f = Inr job \<and> output_var f = []"
  then have "script_var f \<noteq> []" and "PYINSTALLER_AVAILABLE env"
    using build_exe_guards [of env f job] by simp_all
  from build_exe_job [OF this] a
  have "job_output job = None" and "job_script job = script_var f"
    by (auto simp: get_or_None_def)
  then show "run_build env job (Inr 0)
          = show_success_with_explorer (path_parent env (Path env (script_var f)))"
    by (simp add: run_build_def)
qed

lemma sample_form_output: "output_var sample_form = []"
  by (simp add: sample_form_def)

lemma sample_parent_app:
  "path_parent (sample_env True True) ''/work/app.py'' = ''/work''
   \<and> path_parent (sample_env True True)
        (Path (sample_env True True) (script_var sample_form)) = ''/work''"
  by code_simp

theorem output_defaults_to_parent_witness:
  "(\<exists>self. Crafter_init (sample_env True True) sample_args sample_world = Inr self
      \<and> output_dir self = ''/work'')
   \<and> (\<exists>job. build_exe (sample_env True True) sample_form = Inr job
        \<and> run_build (sample_env True True) job (Inr 0) = show_success_with_explorer ''/work'')"
proof (intro conjI)
  obtain self where h:
    "Crafter_init (sample_env True True) sample_args sample_world = Inr self"
    using sample_init_succeeds by (auto split: sum.splits)
  have a: "arg_script sample_args = Str ''app.py''" and o: "arg_output sample_args = None"
    by (simp_all add: sample_args_def)
  have t: "\<not> truthy (arg_output sample_args)" unfolding o by simp
  have s: "script self = ''/work/app.py''"
    using Crafter_init_Inr(3) [OF h]
    unfolding a script_text.simps sample_resolve_app by simp
  from output_defaults_to_parent [of "sample_env True True" sample_args sample_world self] h t
  have "output_dir self = path_parent (sample_env True True) (script self)" by blast
  then have "output_dir self = ''/work''"
    unfolding s using sample_parent_app by simp
  with h show "\<exists>self. Crafter_init (sample_env True True) sample_args sample_world = Inr self
      \<and> output_dir self = ''/work''" by blast
next
  obtain job where j: "build_exe (sample_env True True) sample_form = Inr job"
    using build_exe_job [OF sample_form_script(1) sample_available] by blast
  from output_defaults_to_parent [of "sample_env True True" _ _ _ sample_form job]
    j sample_form_output
  have "run_build (sample_env True True) job (Inr 0)
          = show_success_with_explorer (path_parent (sample_env True True)
              (Path (sample_env True True) (script_var sample_form)))" by blast
  then have "run_build (sample_env True True) job (Inr 0) = show_success_with_explorer ''/work''"
    using sample_parent_app by simp
  with j show "\<exists>job. build_exe (sample_env True True) sample_form = Inr job
        \<and> run_build (sample_env True True) job (Inr 0) = show_success_with_explorer ''/work''"
    by blast
qed

section \<open>The method build\<close>

lemma build_except_raises:
  "fst (build_except self e w)
     = Inl (Exc AttributeError
              (CHR 0x27 # ''Crafter'' @ CHR 0x27 # '' object has no attribute ''
                 @ CHR 0x27 # ''debug'' @ [CHR 0x27]) None)"
  by (simp add: build_except_def self_debug_def Let_def)

text \<open>
  Whatever exception leaves the \<^verbatim>\<open>try\<close> block for the handler, \<^verbatim>\<open>build\<close> ends with the
  \<^verbatim>\<open>AttributeError\<close> of the handler: the statement
  \<^verbatim>\<open>raise CrafterError(error_msg) from e\<close> is never reached.
\<close>

lemma build_raises_AttributeError:
  assumes "fst (build_try env self w) = Inl e" and "is_Exception (exc_class e)"
  shows "fst (build env self w)
     = Inl (Exc AttributeError
              (CHR 0x27 # ''Crafter'' @ CHR 0x27 # '' object has no attribute ''
                 @ CHR 0x27 # ''debug'' @ [CHR 0x27]) None)"
proof -
  obtain r w1 where p: "build_try env self w = (r, w1)" by (cases "build_try env self w")
  with assms have "r = Inl e" by simp
  with p assms(2) show ?thesis by (simp add: build_def build_except_raises)
qed

text \<open>An exception outside \<^verbatim>\<open>Exception\<close> passes the handler.\<close>

lemma build_passes:
  assumes "fst (build_try env self w) = Inl e" and "\<not> is_Exception (exc_class e)"
  shows "fst (build env self w) = Inl e"
proof -
  obtain r w1 where p: "build_try env self w = (r, w1)" by (cases "build_try env self w")
  with assms have "r = Inl e" by simp
  with p assms(2) show ?thesis by (simp add: build_def)
qed

lemma build_returns:
  assumes "fst (build_try env self w) = Inr exe"
  shows "fst (build env self w) = Inr exe"
proof -
  obtain r w1 where p: "build_try env self w = (r, w1)" by (cases "build_try env self w")
  with assms have "r = Inr exe" by simp
  with p show ?thesis by (simp add: build_def)
qed

text \<open>What \<^verbatim>\<open>build\<close> returns is the path of the executable in the output directory.\<close>

lemma build_try_Inr:
  assumes "fst (build_try env self w) = Inr exe"
  shows "exe = path_str env (path_join env (output_dir self) (name self @ ''.exe''))"
  using assms
  by (auto simp: build_try_def Let_def split: option.splits prod.splits sum.splits if_splits)

lemma build_Inr:
  assumes "fst (build env self w) = Inr exe"
  shows "exe = path_str env (path_join env (output_dir self) (name self @ ''.exe''))"
proof (cases "fst (build_try env self w)")
  case (Inl e)
  with assms show ?thesis
    by (cases "is_Exception (exc_class e)")
      (simp_all add: build_raises_AttributeError build_passes)
next
  case (Inr p)
  with assms have "p = exe" by (simp add: build_returns)
  with Inr show ?thesis by (simp add: build_try_Inr)
qed

lemma build_never_CrafterError: "fst (build env self w) \<noteq> Inl (Exc CrafterError m c)"
proof (cases "fst (build_try env self w)")
  case (Inl e)
  show ?thesis
  proof (cases "is_Exception (exc_class e)")
    case True
    with Inl show ?thesis by (simp add: build_raises_AttributeError)
  next
    case False
    then have "e \<noteq> Exc CrafterError m c" by auto
    with Inl False show ?thesis by (simp add: build_passes)
  qed
next
  case (Inr exe)
  then show ?thesis by (simp add: build_returns)
qed

lemma crafter_eqI:
  fixes a b :: "(string, string list) crafter"
  assumes "script a = script b \<and> output_dir a = output_dir b \<and> icon a = icon b
           \<and> name a = name b \<and> no_console a = no_console b \<and> one_file a = one_file b
           \<and> require_admin a = require_admin b \<and> clean_build a = clean_build b
           \<and> force_replace a = force_replace b \<and> optimize a = optimize b
           \<and> hidden_imports a = hidden_imports b
           \<and> excluded_modules a = excluded_modules b \<and> data_files a = data_files b
           \<and> binary_files a = binary_files b \<and> extra_paths a = extra_paths b"
    and "(case progress_callback a of None \<Rightarrow> True | Some c \<Rightarrow> False)"
    and "(case progress_callback b of None \<Rightarrow> True | Some c \<Rightarrow> False)"
  shows "a = b"
proof -
  from assms(2,3) have "progress_callback a = progress_callback b"
    by (auto split: option.splits)
  with assms(1) show ?thesis by (intro crafter.equality) simp_all
qed

lemma sample_crafter_fields:
  "(case Crafter_init (sample_env True True) sample_args sample_world of
      Inr a \<Rightarrow>
        (script a = script sample_crafter \<and> output_dir a = output_dir sample_crafter
         \<and> icon a = icon sample_crafter \<and> name a = name sample_crafter
         \<and> no_console a = no_console sample_crafter \<and> one_file a = one_file sample_crafter
         \<and> require_admin a = require_admin sample_crafter
         \<and> clean_build a = clean_build sample_crafter
         \<and> force_replace a = force_replace sample_crafter
         \<and> optimize a = optimize sample_crafter
         \<and> hidden_imports a = hidden_imports sample_crafter
         \<and> excluded_modules a = excluded_modules sample_crafter
         \<and> data_files a = data_files sample_crafter
         \<and> binary_files a = binary_files sample_crafter
         \<and> extra_paths a = extra_paths sample_crafter)
        \<and> (case progress_callback a of None \<Rightarrow> True | Some c \<Rightarrow> False)
    | Inl e \<Rightarrow> False)"
  by code_simp

lemma sample_crafter_icon_fields:
  "(case Crafter_init (sample_env True True)
           (sample_args\<lparr>arg_icon := Some ''missing.ico''\<rparr>) sample_world of
      Inr a \<Rightarrow>
        (script a = script sample_crafter_icon \<and> output_dir a = output_dir sample_crafter_icon
         \<and> icon a = icon sample_crafter_icon \<and> name a = name sample_crafter_icon
         \<and> no_console a = no_console sample_crafter_icon
         \<and> one_file a = one_file sample_crafter_icon
         \<and> require_admin a = require_admin sample_crafter_icon
         \<and> clean_build a = clean_build sample_crafter_icon
         \<and> force_replace a = force_replace sample_crafter_icon
         \<and> optimize a = optimize sample_crafter_icon
         \<and> hidden_imports a = hidden_imports sample_crafter_icon
         \<and> excluded_modules a = excluded_modules sample_crafter_icon
         \<and> data_files a = data_files sample_crafter_icon
         \<and> binary_files a = binary_files sample_crafter_icon
         \<and> extra_paths a = extra_paths sample_crafter_icon)
        \<and> (case progress_callback a of None \<Rightarrow> True | Some c \<Rightarrow> False)
    | Inl e \<Rightarrow> False)"
  by code_simp

lemma sample_crafter_callback:
  "(case progress_callback sample_crafter of None \<Rightarrow> True | Some c \<Rightarrow> False)"
  "(case progress_callback sample_crafter_icon of None \<Rightarrow> True | Some c \<Rightarrow> False)"
  by (simp_all add: sample_crafter_def sample_crafter_icon_def)

text \<open>The sample objects are what the constructor returns.\<close>

lemma sample_crafter_constructed:
  "Crafter_init (sample_env True True) sample_args sample_world = Inr sample_crafter"
proof (cases "Crafter_init (sample_env True True) sample_args sample_world")
  case (Inl e)
  with sample_crafter_fields show ?thesis by simp
next
  case (Inr a)
  with sample_crafter_fields have "a = sample_crafter"
    by (intro crafter_eqI sample_crafter_callback) simp_all
  with Inr show ?thesis by simp
qed

lemma sample_crafter_icon_constructed:
  "Crafter_init (sample_env True True) (sample_args\<lparr>arg_icon := Some ''missing.ico''\<rparr>)
     sample_world = Inr sample_crafter_icon"
proof (cases "Crafter_init (sample_env True True)
                (sample_args\<lparr>arg_icon := Some ''missing.ico''\<rparr>) sample_world")
  case (Inl e)
  with sample_crafter_icon_fields show ?thesis by simp
next
  case (Inr a)
  with sample_crafter_icon_fields have "a = sample_crafter_icon"
    by (intro crafter_eqI sample_crafter_callback) simp_all
  with Inr show ?thesis by simp
qed

text \<open>
  C2 on a failing input: the object of \<^verbatim>\<open>Crafter('app.py')\<close>, where the script exists
  and the packaging tool returns without writing \<^verbatim>\<open>/work/app.exe\<close>. The \<^verbatim>\<open>try\<close> block
  raises the \<^verbatim>\<open>CrafterError\<close> of the claim, and \<^verbatim>\<open>build\<close> ends with an \<^verbatim>\<open>AttributeError\<close>
  instead.
\<close>

theorem build_missing_executable:
  "fst (build_try (sample_env True False) sample_crafter sample_world)
     = Inl (Exc CrafterError ''Build completed but executable file was not found.'' None)
   \<and> fst (build (sample_env True False) sample_crafter sample_world)
     = Inl (Exc AttributeError
              (CHR 0x27 # ''Crafter'' @ CHR 0x27 # '' object has no attribute ''
                 @ CHR 0x27 # ''debug'' @ [CHR 0x27]) None)"
  by code_simp

text \<open>When the tool has written the executable, \<^verbatim>\<open>build\<close> returns its path.\<close>

lemma build_present_executable:
  "fst (build (sample_env True True) sample_crafter sample_world) = Inr ''/work/app.exe''"
  by code_simp

text \<open>
  C6 on a failing input: the object of \<^verbatim>\<open>Crafter('app.py', icon='missing.ico')\<close>, whose
  icon does not exist when \<^verbatim>\<open>build\<close> runs. Validation raises a \<^verbatim>\<open>CrafterError\<close>, and
  \<^verbatim>\<open>build\<close> ends with an \<^verbatim>\<open>AttributeError\<close> that has no cause, not with a \<^verbatim>\<open>CrafterError\<close>
  whose message starts with \<^verbatim>\<open>Build failed:\<close>.
\<close>

theorem build_missing_icon:
  "fst (build_try (sample_env True True) sample_crafter_icon sample_world)
     = Inl (Exc CrafterError ''Icon file not found: /work/missing.ico'' None)
   \<and> fst (build (sample_env True True) sample_crafter_icon sample_world)
     = Inl (Exc AttributeError
              (CHR 0x27 # ''Crafter'' @ CHR 0x27 # '' object has no attribute ''
                 @ CHR 0x27 # ''debug'' @ [CHR 0x27]) None)"
  by code_simp

section \<open>The two translations compared\<close>

lemma entries_stripped: "stripped_nonempty (entries t)"
  by (simp add: stripped_nonempty_def entries_def list_all_iff strip_idem)

lemma clean_list_parse: "clean_list (parse_comma_separated t) = entries t"
proof (cases "parse_comma_separated t")
  case None
  with parse_comma_separated_entries [of t] have "entries t = []" by simp
  with None show ?thesis by (simp add: clean_list_None)
next
  case (Some ys)
  with parse_comma_separated_entries [of t] have e: "entries t = ys" by simp
  have "list_all (\<lambda>x. x \<noteq> [] \<and> strip x = x) ys"
    using entries_stripped [of t] unfolding e stripped_nonempty_def .
  then have "clean_list (Some ys) = ys" by (rule clean_list_fixed)
  with Some e show ?thesis by simp
qed

lemma truthy_get_or_None: "truthy (get_or_None v) = (v \<noteq> [])"
  by (simp add: get_or_None_def)

lemma the_get_or_None: "v \<noteq> [] \<Longrightarrow> the (get_or_None v) = v"
  by (simp add: get_or_None_def)

lemma init_icon_Inr:
  assumes "init_icon env (get_or_None v) w = Inr ic"
  shows "v = [] \<and> ic = None
         \<or> v \<noteq> [] \<and> (\<exists>p. path_resolve env (Path env v) w = Inr p \<and> ic = Some p)"
  using assms
  by (auto simp: init_icon_def get_or_None_def split: if_splits sum.splits)

lemma Crafter_init_form:
  assumes "Crafter_init env (crafter_args_of_form f) w0 = Inr self"
  shows "init_icon env (get_or_None (icon_var f)) w0 = Inr (icon self)"
    and "one_file self = one_file_var f"
    and "no_console self = no_console_var f"
    and "require_admin self = admin_var f"
    and "optimize self = optimize_var f"
    and "hidden_imports self = entries (hidden_imports_var f)"
    and "excluded_modules self = entries (excluded_modules_var f)"
    and "data_files self = entries (data_files_var f)"
    and "binary_files self = entries (binary_files_var f)"
    and "extra_paths self = entries (extra_paths_var f)"
  using Crafter_init_Inr(6-15) [OF assms]
  by (simp_all add: crafter_args_of_form_def clean_list_parse)

text \<open>
  C4, as amended. For the same build configuration the two translations agree on the
  options \<^verbatim>\<open>--onefile\<close>, \<^verbatim>\<open>--noconsole\<close> and \<^verbatim>\<open>--uac-admin\<close> and on the pairs for the
  hidden imports, the excluded modules and the extra paths, in the same order. Around
  these the class always writes \<^verbatim>\<open>--name\<close>, \<^verbatim>\<open>--distpath\<close>, \<^verbatim>\<open>--workpath\<close> and
  \<^verbatim>\<open>--specpath\<close>, the resolved script first, the resolved icon, \<^verbatim>\<open>--optimize\<close> and \<^verbatim>\<open>2\<close> as
  two arguments, and the data and binary entries unchanged; the window writes
  \<^verbatim>\<open>pyinstaller\<close> first, \<^verbatim>\<open>--clean\<close>, \<^verbatim>\<open>--noconfirm\<close>, \<^verbatim>\<open>--optimize=2\<close>, the output directory,
  icon and name only for fields that are not empty, \<^verbatim>\<open>;.\<close> after each data and binary
  entry, and the script as typed last.
\<close>

theorem translations_agree:
  assumes "Crafter_init env (crafter_args_of_form f) w0 = Inr self"
    and "build_exe env f = Inr job"
  shows "\<exists>work_dir spec_dir icon_path.
     (icon_var f = []
        \<or> (\<exists>p. path_resolve env (Path env (icon_var f)) w0 = Inr p
               \<and> icon_path = path_str env p))
     \<and> fst (build_command env self w) =
       [path_str env (script self),
        ''--name'', name self,
        ''--distpath'', path_str env (output_dir self),
        ''--workpath'', work_dir,
        ''--specpath'', spec_dir]
       @ flag_if (icon_var f \<noteq> []) [''--icon'', icon_path]
       @ shared_flags f
       @ flag_if (optimize_var f) [''--optimize'', ''2'']
       @ shared_modules f
       @ pairs ''--add-data'' (entries (data_files_var f))
       @ pairs ''--add-binary'' (entries (binary_files_var f))
       @ shared_paths f
     \<and> job_cmd job =
       [''pyinstaller'']
       @ shared_flags f
       @ flag_if (clean_build_var f) [''--clean'']
       @ flag_if (force_replace_var f) [''--noconfirm'']
       @ flag_if (optimize_var f) [''--optimize=2'']
       @ flag_if (output_var f \<noteq> []) [''--distpath'', output_var f]
       @ flag_if (icon_var f \<noteq> []) [''--icon'', icon_var f]
       @ flag_if (name_var f \<noteq> []) [''--name'', name_var f]
       @ shared_modules f
       @ pairs ''--add-data'' (map (\<lambda>e. e @ '';.'') (entries (data_files_var f)))
       @ pairs ''--add-binary'' (map (\<lambda>e. e @ '';.'') (entries (binary_files_var f)))
       @ shared_paths f
       @ [script_var f]"
proof -
  from init_icon_Inr [OF Crafter_init_form(1) [OF assms(1)]]
  obtain icon_path where
    k: "icon_var f = []
        \<or> (\<exists>p. path_resolve env (Path env (icon_var f)) w0 = Inr p
               \<and> icon_path = path_str env p)" and
    i: "(case icon self of Some ic \<Rightarrow> [''--icon'', path_str env ic] | None \<Rightarrow> [])
             = flag_if (icon_var f \<noteq> []) [''--icon'', icon_path]"
    by (auto simp: flag_if_def)
  have b: "fst (build_command env self w) =
       [path_str env (script self),
        ''--name'', name self,
        ''--distpath'', path_str env (output_dir self),
        ''--workpath'',
          path_str env (Path env (fst (tempfile_mkdtemp env ''pyinstaller_work_'' w))),
        ''--specpath'',
          path_str env (Path env (fst (tempfile_mkdtemp env ''pyinstaller_spec_''
            (snd (tempfile_mkdtemp env ''pyinstaller_work_'' w)))))]
       @ flag_if (icon_var f \<noteq> []) [''--icon'', icon_path]
       @ shared_flags f
       @ flag_if (optimize_var f) [''--optimize'', ''2'']
       @ shared_modules f
       @ pairs ''--add-data'' (entries (data_files_var f))
       @ pairs ''--add-binary'' (entries (binary_files_var f))
       @ shared_paths f"
    unfolding build_command_cmd i Crafter_init_form(2-10) [OF assms(1)]
      shared_flags_def shared_modules_def shared_paths_def
    by simp
  have "script_var f \<noteq> []" and "PYINSTALLER_AVAILABLE env"
    using build_exe_guards [OF assms(2)] by simp_all
  from build_exe_job [OF this] assms(2)
  have g: "job_cmd job =
       [''pyinstaller'']
       @ shared_flags f
       @ flag_if (clean_build_var f) [''--clean'']
       @ flag_if (force_replace_var f) [''--noconfirm'']
       @ flag_if (optimize_var f) [''--optimize=2'']
       @ flag_if (output_var f \<noteq> []) [''--distpath'', output_var f]
       @ flag_if (icon_var f \<noteq> []) [''--icon'', icon_var f]
       @ flag_if (name_var f \<noteq> []) [''--name'', name_var f]
       @ shared_modules f
       @ pairs ''--add-data'' (map (\<lambda>e. e @ '';.'') (entries (data_files_var f)))
       @ pairs ''--add-binary'' (map (\<lambda>e. e @ '';.'') (entries (binary_files_var f)))
       @ shared_paths f
       @ [script_var f]"
    unfolding shared_flags_def shared_modules_def shared_paths_def by auto
  from k b g show ?thesis by blast
qed

lemma sample_form_init_succeeds:
  "(case Crafter_init (sample_env True True) (crafter_args_of_form sample_form_spaces) sample_world of
      Inr self \<Rightarrow> script self = ''/work/app.py'' \<and> name self = ''app''
                    \<and> output_dir self = ''/work''
    | Inl e \<Rightarrow> False)"
  by code_simp

lemma sample_form_shared:
  "icon_var sample_form_spaces = [] \<and> optimize_var sample_form_spaces = False
   \<and> shared_flags sample_form_spaces = [''--onefile'']
   \<and> shared_modules sample_form_spaces = [''--hidden-import'', ''os'', ''--hidden-import'', ''sys'']
   \<and> shared_paths sample_form_spaces = []
   \<and> pairs ''--add-data'' (entries (data_files_var sample_form_spaces)) = [''--add-data'', ''conf.ini'']
   \<and> pairs ''--add-binary'' (entries (binary_files_var sample_form_spaces)) = []"
  by code_simp

theorem translations_agree_witness:
  "\<exists>self job work_dir spec_dir.
     Crafter_init (sample_env True True) (crafter_args_of_form sample_form_spaces) sample_world
       = Inr self
     \<and> build_exe (sample_env True True) sample_form_spaces = Inr job
     \<and> fst (build_command (sample_env True True) self sample_world) =
         [''/work/app.py'', ''--name'', ''app'', ''--distpath'', ''/work'',
          ''--workpath'', work_dir, ''--specpath'', spec_dir,
          ''--onefile'', ''--hidden-import'', ''os'', ''--hidden-import'', ''sys'',
          ''--add-data'', ''conf.ini'']
     \<and> job_cmd job =
         [''pyinstaller'', ''--onefile'', ''--hidden-import'', ''os'', ''--hidden-import'', ''sys'',
          ''--add-data'', ''conf.ini;.'', ''/work/app.py'']"
proof -
  obtain self where h:
    "Crafter_init (sample_env True True) (crafter_args_of_form sample_form_spaces) sample_world
       = Inr self"
    and a: "script self = ''/work/app.py''" "name self = ''app''" "output_dir self = ''/work''"
    using sample_form_init_succeeds by (auto split: sum.splits)
  obtain job where j: "build_exe (sample_env True True) sample_form_spaces = Inr job"
    using build_exe_job [OF sample_form_script(2) sample_available] by blast
  have c: "job_cmd job =
         [''pyinstaller'', ''--onefile'', ''--hidden-import'', ''os'', ''--hidden-import'', ''sys'',
          ''--add-data'', ''conf.ini;.'', ''/work/app.py'']"
    using build_exe_job [OF sample_form_script(2) sample_available] j
    unfolding sample_form_layout by simp
  have p: "path_str (sample_env True True) = (\<lambda>p. p)"
    by (simp add: sample_env_def)
  from translations_agree [OF h j, of sample_world] obtain work_dir spec_dir icon_path where
    "fst (build_command (sample_env True True) self sample_world) =
       [path_str (sample_env True True) (script self),
        ''--name'', name self,
        ''--distpath'', path_str (sample_env True True) (output_dir self),
        ''--workpath'', work_dir,
        ''--specpath'', spec_dir]
       @ flag_if (icon_var sample_form_spaces \<noteq> []) [''--icon'', icon_path]
       @ shared_flags sample_form_spaces
       @ flag_if (optimize_var sample_form_spaces) [''--optimize'', ''2'']
       @ shared_modules sample_form_spaces
       @ pairs ''--add-data'' (entries (data_files_var sample_form_spaces))
       @ pairs ''--add-binary'' (entries (binary_files_var sample_form_spaces))
       @ shared_paths sample_form_spaces"
    by blast
  then have "fst (build_command (sample_env True True) self sample_world) =
         [''/work/app.py'', ''--name'', ''app'', ''--distpath'', ''/work'',
          ''--workpath'', work_dir, ''--specpath'', spec_dir,
          ''--onefile'', ''--hidden-import'', ''os'', ''--hidden-import'', ''sys'',
          ''--add-data'', ''conf.ini'']"
    using sample_form_shared by (simp add: a p flag_if_def)
  with h j c show ?thesis by blast
qed

text \<open>
  The claim without the amendment fails on the sample form: the two commands do not
  hold the same arguments.
\<close>

theorem translations_agree_counterexample:
  "(case crafter_command (sample_env True True) (crafter_args_of_form sample_form)
           sample_world of
      Inr backend \<Rightarrow>
        (case build_exe (sample_env True True) sample_form of
           Inr job \<Rightarrow>
             set backend \<noteq> set (job_cmd job)
             \<and> ''--workpath'' \<in> set backend \<and> ''--workpath'' \<notin> set (job_cmd job)
             \<and> ''pyinstaller'' \<notin> set backend \<and> ''pyinstaller'' \<in> set (job_cmd job)
         | Inl e \<Rightarrow> False)
    | Inl e \<Rightarrow> False)"
  by code_simp

section \<open>The options that reach the command line\<close>

lemma build_command_ignores:
  "fst (build_command env
          (self\<lparr>clean_build := a, force_replace := b, progress_callback := cb\<rparr>) w)
     = fst (build_command env self w)"
  unfolding build_command_cmd by simp

text \<open>When the constructor raises before it resolves, only the script decides what.\<close>

lemma Crafter_init_early:
  assumes "arg_script a = arg_script b"
    and "\<not> (PYINSTALLER_AVAILABLE env \<and> valid_script env w (arg_script a))"
  shows "Crafter_init env a w = Crafter_init env b w
         \<and> (\<exists>e. Crafter_init env a w = Inl e)"
proof (cases "PYINSTALLER_AVAILABLE env")
  case False
  then show ?thesis by (simp add: Crafter_init_def)
next
  case True
  show ?thesis
  proof (cases "arg_script a")
    case (NonStr x)
    moreover from this assms(1) have "arg_script b = NonStr x" by simp
    ultimately show ?thesis by (simp add: Crafter_init_def)
  next
    case (Str s)
    from this assms(1) have sb: "arg_script b = Str s" by simp
    show ?thesis
    proof (cases "s = []")
      case True
      with Str sb show ?thesis by (simp add: Crafter_init_def)
    next
      case False
      show ?thesis
      proof (cases "path_is_file env (Path env s) w")
        case (Inl e)
        with Str sb False \<open>PYINSTALLER_AVAILABLE env\<close> show ?thesis
          by (simp add: Crafter_init_def Let_def)
      next
        case (Inr x)
        with assms(2) \<open>PYINSTALLER_AVAILABLE env\<close> Str False
        have "\<not> x \<or> lower (path_suffix env (Path env s)) \<noteq> ''.py''" by auto
        with Inr Str sb False \<open>PYINSTALLER_AVAILABLE env\<close> show ?thesis
          by (simp add: Crafter_init_def Let_def)
      qed
    qed
  qed
qed

lemma Crafter_init_ignores:
  "Crafter_init env
     (args\<lparr>arg_clean_build := a, arg_force_replace := b, arg_progress_callback := cb\<rparr>) w
     = (case Crafter_init env args w of
          Inl e \<Rightarrow> Inl e
        | Inr self \<Rightarrow>
            Inr (self\<lparr>clean_build := a, force_replace := b, progress_callback := cb\<rparr>))"
proof (cases "PYINSTALLER_AVAILABLE env \<and> valid_script env w (arg_script args)")
  case False
  have "arg_script args = arg_script
          (args\<lparr>arg_clean_build := a, arg_force_replace := b, arg_progress_callback := cb\<rparr>)"
    by simp
  from Crafter_init_early [OF this False] obtain e where
    1: "Crafter_init env args w = Crafter_init env
          (args\<lparr>arg_clean_build := a, arg_force_replace := b, arg_progress_callback := cb\<rparr>) w"
    and 2: "Crafter_init env args w = Inl e"
    by blast
  from 1 2 have 3: "Crafter_init env
          (args\<lparr>arg_clean_build := a, arg_force_replace := b, arg_progress_callback := cb\<rparr>) w
        = Inl e"
    by simp
  show ?thesis unfolding 3 2 by simp
next
  case True
  then have v: "PYINSTALLER_AVAILABLE env"
    "valid_script env w (arg_script args)"
    "valid_script env w (arg_script
       (args\<lparr>arg_clean_build := a, arg_force_replace := b, arg_progress_callback := cb\<rparr>))"
    by simp_all
  show ?thesis
  proof (cases "path_resolve env (Path env (script_text (arg_script args))) w")
    case (Inl e)
    then show ?thesis
      by (simp add: Crafter_init_valid_script [OF v(1,2)]
            Crafter_init_valid_script [OF v(1,3)])
  next
    case sp: (Inr sp)
    show ?thesis
    proof (cases "init_output env (arg_output args) sp w")
      case (Inl e)
      with sp show ?thesis
        by (simp add: Crafter_init_valid_script [OF v(1,2)]
              Crafter_init_valid_script [OF v(1,3)])
    next
      case so: (Inr so)
      show ?thesis
      proof (cases "init_icon env (arg_icon args) w")
        case (Inl e)
        with sp so show ?thesis
          by (simp add: Crafter_init_valid_script [OF v(1,2)]
                Crafter_init_valid_script [OF v(1,3)])
      next
        case (Inr si)
        with sp so show ?thesis
          by (simp add: Crafter_init_valid_script [OF v(1,2)]
                Crafter_init_valid_script [OF v(1,3)])
      qed
    qed
  qed
qed

lemma crafter_command_ignores:
  "crafter_command env
     (args\<lparr>arg_clean_build := a, arg_force_replace := b, arg_progress_callback := cb\<rparr>) w
     = crafter_command env args w"
  unfolding crafter_command_def Crafter_init_ignores
  by (cases "Crafter_init env args w") (simp_all add: build_command_ignores)

lemma crafter_command_sensitive:
  "changes_crafter_command (sample_args\<lparr>arg_script := Str ''main.py''\<rparr>)
   \<and> changes_crafter_command (sample_args\<lparr>arg_output := Some ''dist''\<rparr>)
   \<and> changes_crafter_command (sample_args\<lparr>arg_icon := Some ''app.ico''\<rparr>)
   \<and> changes_crafter_command (sample_args\<lparr>arg_name := Some ''tool''\<rparr>)
   \<and> changes_crafter_command (sample_args\<lparr>arg_no_console := True\<rparr>)
   \<and> changes_crafter_command (sample_args\<lparr>arg_one_file := False\<rparr>)
   \<and> changes_crafter_command (sample_args\<lparr>arg_require_admin := True\<rparr>)
   \<and> changes_crafter_command (sample_args\<lparr>arg_optimize := True\<rparr>)
   \<and> changes_crafter_command (sample_args\<lparr>arg_hidden_imports := None\<rparr>)
   \<and> changes_crafter_command (sample_args\<lparr>arg_excluded_modules := Some [''tkinter'']\<rparr>)
   \<and> changes_crafter_command (sample_args\<lparr>arg_data_files := Some [''conf.ini;.'']\<rparr>)
   \<and> changes_crafter_command (sample_args\<lparr>arg_binary_files := Some [''lib.dll;.'']\<rparr>)
   \<and> changes_crafter_command (sample_args\<lparr>arg_extra_paths := Some [''lib'']\<rparr>)"
  by code_simp

lemma build_exe_sensitive:
  "changes_build_exe (sample_form\<lparr>script_var := ''/work/main.py''\<rparr>)
   \<and> changes_build_exe (sample_form\<lparr>output_var := ''dist''\<rparr>)
   \<and> changes_build_exe (sample_form\<lparr>icon_var := ''app.ico''\<rparr>)
   \<and> changes_build_exe (sample_form\<lparr>name_var := ''tool''\<rparr>)
   \<and> changes_build_exe (sample_form\<lparr>no_console_var := True\<rparr>)
   \<and> changes_build_exe (sample_form\<lparr>one_file_var := False\<rparr>)
   \<and> changes_build_exe (sample_form\<lparr>admin_var := True\<rparr>)
   \<and> changes_build_exe (sample_form\<lparr>clean_build_var := True\<rparr>)
   \<and> changes_build_exe (sample_form\<lparr>force_replace_var := True\<rparr>)
   \<and> changes_build_exe (sample_form\<lparr>optimize_var := True\<rparr>)
   \<and> changes_build_exe (sample_form\<lparr>hidden_imports_var := ''''\<rparr>)
   \<and> changes_build_exe (sample_form\<lparr>excluded_modules_var := ''tkinter''\<rparr>)
   \<and> changes_build_exe (sample_form\<lparr>data_files_var := ''''\<rparr>)
   \<and> changes_build_exe (sample_form\<lparr>binary_files_var := ''lib.dll''\<rparr>)
   \<and> changes_build_exe (sample_form\<lparr>extra_paths_var := ''lib''\<rparr>)"
  by code_simp

text \<open>
  C5, as amended. The options that the program translates into command-line arguments
  are the script path, the icon, the output directory, the name, the console, single-file
  and administrator flags, the optimisation flag, the hidden imports, the excluded
  modules, the data files, the binary files and the extra search paths, and in the
  window also the clean-build and force-replace checkboxes. The command of the class
  does not depend on its remaining arguments \<^verbatim>\<open>clean_build\<close>, \<^verbatim>\<open>force_replace\<close> and
  \<^verbatim>\<open>progress_callback\<close>; each of the options named changes the command of its
  translation on the sample configuration.
\<close>

theorem command_line_options:
  "crafter_command env
     (args\<lparr>arg_clean_build := a, arg_force_replace := b, arg_progress_callback := cb\<rparr>) w
     = crafter_command env args w
   \<and> changes_crafter_command (sample_args\<lparr>arg_script := Str ''main.py''\<rparr>)
   \<and> changes_crafter_command (sample_args\<lparr>arg_output := Some ''dist''\<rparr>)
   \<and> changes_crafter_command (sample_args\<lparr>arg_icon := Some ''app.ico''\<rparr>)
   \<and> changes_crafter_command (sample_args\<lparr>arg_name := Some ''tool''\<rparr>)
   \<and> changes_crafter_command (sample_args\<lparr>arg_no_console := True\<rparr>)
   \<and> changes_crafter_command (sample_args\<lparr>arg_one_file := False\<rparr>)
   \<and> changes_crafter_command (sample_args\<lparr>arg_require_admin := True\<rparr>)
   \<and> changes_crafter_command (sample_args\<lparr>arg_optimize := True\<rparr>)
   \<and> changes_crafter_command (sample_args\<lparr>arg_hidden_imports := None\<rparr>)
   \<and> changes_crafter_command (sample_args\<lparr>arg_excluded_modules := Some [''tkinter'']\<rparr>)
   \<and> changes_crafter_command (sample_args\<lparr>arg_data_files := Some [''conf.ini;.'']\<rparr>)
   \<and> changes_crafter_command (sample_args\<lparr>arg_binary_files := Some [''lib.dll;.'']\<rparr>)
   \<and> changes_crafter_command (sample_args\<lparr>arg_extra_paths := Some [''lib'']\<rparr>)
   \<and> changes_build_exe (sample_form\<lparr>script_var := ''/work/main.py''\<rparr>)
   \<and> changes_build_exe (sample_form\<lparr>output_var := ''dist''\<rparr>)
   \<and> changes_build_exe (sample_form\<lparr>icon_var := ''app.ico''\<rparr>)
   \<and> changes_build_exe (sample_form\<lparr>name_var := ''tool''\<rparr>)
   \<and> changes_build_exe (sample_form\<lparr>no_console_var := True\<rparr>)
   \<and> changes_build_exe (sample_form\<lparr>one_file_var := False\<rparr>)
   \<and> changes_build_exe (sample_form\<lparr>admin_var := True\<rparr>)
   \<and> changes_build_exe (sample_form\<lparr>clean_build_var := True\<rparr>)
   \<and> changes_build_exe (sample_form\<lparr>force_replace_var := True\<rparr>)
   \<and> changes_build_exe (sample_form\<lparr>optimize_var := True\<rparr>)
   \<and> changes_build_exe (sample_form\<lparr>hidden_imports_var := ''''\<rparr>)
   \<and> changes_build_exe (sample_form\<lparr>excluded_modules_var := ''tkinter''\<rparr>)
   \<and> changes_build_exe (sample_form\<lparr>data_files_var := ''''\<rparr>)
   \<and> changes_build_exe (sample_form\<lparr>binary_files_var := ''lib.dll''\<rparr>)
   \<and> changes_build_exe (sample_form\<lparr>extra_paths_var := ''lib''\<rparr>)"
  using crafter_command_sensitive build_exe_sensitive
  by (simp only: crafter_command_ignores simp_thms)

text \<open>
  The claim without the amendment fails on the name: two forms that agree on every
  option of its list give different commands.
\<close>

theorem command_line_options_counterexample:
  "same_listed_options sample_form (sample_form\<lparr>name_var := ''tool''\<rparr>)
   \<and> build_exe (sample_env True True) sample_form
       \<noteq> build_exe (sample_env True True) (sample_form\<lparr>name_var := ''tool''\<rparr>)
   \<and> same_listed_options sample_form (sample_form\<lparr>optimize_var := True\<rparr>)
   \<and> build_exe (sample_env True True) sample_form
       \<noteq> build_exe (sample_env True True) (sample_form\<lparr>optimize_var := True\<rparr>)"
  by code_simp

end
